theory Spec2Isabelle
  imports Complex_Main
begin

section \<open>Tracks as Python dictionaries\<close>

text \<open>
  A track is a Python \<^verbatim>\<open>dict\<close> with string keys. Its values are the JSON values the
  backend stores in it: \<^verbatim>\<open>None\<close>, numbers (Python compares \<^verbatim>\<open>1 == 1.0\<close>, so one
  constructor of reals covers \<^verbatim>\<open>int\<close> and \<^verbatim>\<open>float\<close>; floating-point rounding
  is not modelled), strings and lists. A key may be absent, or present with the value
  \<^verbatim>\<open>None\<close>; the two are different dictionaries and \<^verbatim>\<open>dict.update\<close> tells them apart.
\<close>

datatype pyval = PNone | PNum real | PStr string | PList "pyval list"

type_synonym track = "string \<rightharpoonup> pyval"

datatype py_error = TypeError | KeyError | AttributeError

text \<open>Python truthiness (\<^verbatim>\<open>if x:\<close>, \<^verbatim>\<open>not x\<close>).\<close>

fun truthy :: "pyval \<Rightarrow> bool" where
  "truthy PNone = False"
| "truthy (PNum r) = (r \<noteq> 0)"
| "truthy (PStr s) = (s \<noteq> [])"
| "truthy (PList vs) = (vs \<noteq> [])"

text \<open>\<^verbatim>\<open>d.get(k, default)\<close> and \<^verbatim>\<open>d.get(k)\<close>.\<close>

definition dict_get :: "track \<Rightarrow> string \<Rightarrow> pyval \<Rightarrow> pyval" where
  "dict_get d k dflt = (case d k of None \<Rightarrow> dflt | Some v \<Rightarrow> v)"

definition py_get :: "track \<Rightarrow> string \<Rightarrow> pyval" where
  "py_get d k = dict_get d k PNone"

text \<open>
  \<^verbatim>\<open>artists[0] if artists else default\<close>: a non-empty list or string is subscripted, a
  falsy value gives the default, and a non-zero number raises \<^verbatim>\<open>TypeError\<close>.
\<close>

fun first_or :: "pyval \<Rightarrow> pyval \<Rightarrow> py_error + pyval" where
  "first_or (PList (v # vs)) dflt = Inr v"
| "first_or (PStr (c # cs)) dflt = Inr (PStr [c])"
| "first_or (PNum r) dflt = (if r = 0 then Inr dflt else Inl TypeError)"
| "first_or v dflt = Inr dflt"

text \<open>
  The well-formedness of a track that the transforms rely on: \<^verbatim>\<open>artists\<close>, where
  present, is a list (of artist names).
\<close>

definition artists_is_list :: "track \<Rightarrow> bool" where
  "artists_is_list t =
     (case t ''artists'' of None \<Rightarrow> True | Some (PList vs) \<Rightarrow> True | Some v \<Rightarrow> False)"

section \<open>Playlist-relative normalisation (main.py)\<close>

text \<open>
  \<^verbatim>\<open>np.median\<close> and \<^verbatim>\<open>np.percentile\<close> (default linear interpolation) on a non-empty
  list, over the reals. The percentile \<open>q\<close> is a whole number of percent, as at both
  call sites (75 and 25): the virtual index is \<open>q / 100 * (n - 1)\<close>.
\<close>

definition np_median :: "real list \<Rightarrow> real" where
  "np_median xs =
     (let s = sort xs; n = length s
      in if even n then (s ! (n div 2 - 1) + s ! (n div 2)) / 2 else s ! (n div 2))"

definition np_percentile :: "real list \<Rightarrow> nat \<Rightarrow> real" where
  "np_percentile xs q =
     (let s = sort xs; n = length s;
          k = q * (n - 1);
          lo = k div 100;
          hi = min (lo + 1) (n - 1);
          frac = real (k mod 100) / 100
      in s ! lo + (s ! hi - s ! lo) * frac)"

text \<open>
  The conversion numpy applies to the list of scores: every element has to be a number,
  anything else makes the numpy call (or the subtraction after it) raise.
\<close>

fun as_floats :: "pyval list \<Rightarrow> real list option" where
  "as_floats [] = Some []"
| "as_floats (PNum r # vs) = map_option ((#) r) (as_floats vs)"
| "as_floats (v # vs) = None"

definition present_scores :: "track list \<Rightarrow> pyval list" where
  "present_scores tracks =
     [py_get t ''sentiment_score''. t \<leftarrow> tracks, py_get t ''sentiment_score'' \<noteq> PNone]"

text \<open>The body of the degenerate loop (main.py, lines 95-99) for one track.\<close>

definition collapse_track :: "track \<Rightarrow> track" where
  "collapse_track track =
     (if py_get track ''sentiment_score'' \<noteq> PNone
      then track(''raw_sentiment'' \<mapsto> py_get track ''sentiment_score'',
                 ''normalized_sentiment'' \<mapsto> PNum (1/2),
                 ''sentiment_score'' \<mapsto> PNum (1/2))
      else track)"

text \<open>
  The body of the main loop (lines 103-115) for one track. The loop is only reached
  when every present score is a number.
\<close>

definition squash_track :: "real \<Rightarrow> real \<Rightarrow> track \<Rightarrow> track" where
  "squash_track median iqr track =
     (case py_get track ''sentiment_score'' of
        PNum s \<Rightarrow>
          (let z = (s - median) / iqr;
               normalized = 1 / (1 + exp (- z))
           in track(''raw_sentiment'' \<mapsto> PNum s,
                    ''normalized_sentiment'' \<mapsto> PNum normalized,
                    ''sentiment_score'' \<mapsto> PNum normalized))
      | _ \<Rightarrow> track)"

definition normalize_sentiment_scores :: "track list \<Rightarrow> py_error + track list" where
  "normalize_sentiment_scores tracks =
     (let scores = present_scores tracks
      in if length scores < 2 then Inr tracks
         else (case as_floats scores of
                 None \<Rightarrow> Inl TypeError
               | Some xs \<Rightarrow>
                   (let median = np_median xs;
                        q75 = np_percentile xs 75;
                        q25 = np_percentile xs 25;
                        iqr = q75 - q25
                    in if iqr < 1 / 1000000
                       then Inr (map collapse_track tracks)
                       else Inr (map (squash_track median iqr) tracks))))"

section \<open>Tempo enrichment (audio_features.py)\<close>

text \<open>
  The outside world is a parameter. \<open>finder\<close> stands for the preview search
  (\<^verbatim>\<open>search_and_get_links\<close> and the indexing of its result): \<open>None\<close> when the search
  raises or is unsuccessful, otherwise the \<^verbatim>\<open>previewUrl\<close> it found. \<open>estimate\<close> stands
  for the download and the librosa analysis inside the \<^verbatim>\<open>try\<close> block: \<open>Inl msg\<close> when
  an exception with text \<open>msg\<close> is raised there, \<open>Inr bpm\<close> otherwise.
\<close>

type_synonym finder = "string \<times> string \<Rightarrow> pyval \<Rightarrow> pyval \<Rightarrow> pyval option"
type_synonym estimator = "pyval \<Rightarrow> string + real"

definition get_preview_url_with_finder ::
  "finder \<Rightarrow> pyval \<Rightarrow> pyval \<Rightarrow> string \<times> string \<Rightarrow> pyval" where
  "get_preview_url_with_finder finder title artist spotify_credentials =
     (case finder spotify_credentials title artist of None \<Rightarrow> PNone | Some url \<Rightarrow> url)"

definition calculate_bpm_from_preview_url :: "estimator \<Rightarrow> pyval \<Rightarrow> real option \<times> pyval" where
  "calculate_bpm_from_preview_url estimate preview_url =
     (if \<not> truthy preview_url then (None, PStr ''No preview URL available'')
      else (case estimate preview_url of
              Inr bpm \<Rightarrow> (Some bpm, PNone)
            | Inl e \<Rightarrow> (None, PStr (''Error: '' @ take 50 e))))"

definition analyze_track_with_index ::
  "finder \<Rightarrow> estimator \<Rightarrow> (string \<times> string) option \<Rightarrow> nat \<Rightarrow> track
     \<Rightarrow> py_error + nat \<times> track" where
  "analyze_track_with_index finder estimate spotify_credentials index track =
     (let track_copy = track;
          title = dict_get track_copy ''title'' (PStr ''Unknown'');
          artists = dict_get track_copy ''artists'' (PList [])
      in case first_or artists (PStr ''Unknown'') of
           Inl e \<Rightarrow> Inl e
         | Inr artist \<Rightarrow>
             (let preview_url0 = py_get track_copy ''preview_url'';
                  preview_url =
                    (case spotify_credentials of
                       Some creds \<Rightarrow>
                         if \<not> truthy preview_url0
                         then get_preview_url_with_finder finder title artist creds
                         else preview_url0
                     | None \<Rightarrow> preview_url0)
              in if truthy preview_url
                 then (case calculate_bpm_from_preview_url estimate preview_url of
                         (Some bpm, error) \<Rightarrow>
                           Inr (index, track_copy(''tempo'' \<mapsto> PNum bpm,
                                                  ''audio_features_error'' \<mapsto> PNone))
                       | (None, error) \<Rightarrow>
                           Inr (index, track_copy(''tempo'' \<mapsto> PNone,
                                                  ''audio_features_error'' \<mapsto> error)))
                 else Inr (index, track_copy(''tempo'' \<mapsto> PNone,
                        ''audio_features_error'' \<mapsto> PStr ''No preview URL available''))))"

subsection \<open>The worker pools' collection loops\<close>

text \<open>
  \<open>order\<close> is the order in which \<^verbatim>\<open>as_completed\<close> yields the futures, as indices of the
  submitted items, and \<open>fut i\<close> is the outcome of future \<open>i\<close>. The tempo pool wraps
  \<^verbatim>\<open>future.result()\<close> in \<^verbatim>\<open>try/except\<close> and only prints the exception; the lyrics and
  sentiment pools let it propagate. The pools are modelled as called without a progress
  callback; a callback is handed the running count and does not touch \<^verbatim>\<open>results_dict\<close>.
\<close>

fun collect_catching ::
  "(nat \<Rightarrow> py_error + nat \<times> track) \<Rightarrow> nat list \<Rightarrow> (nat \<rightharpoonup> track) \<Rightarrow> (nat \<rightharpoonup> track)" where
  "collect_catching fut [] results_dict = results_dict"
| "collect_catching fut (i # order) results_dict =
     (case fut i of
        Inr (index, updated_track) \<Rightarrow> collect_catching fut order (results_dict(index \<mapsto> updated_track))
      | Inl e \<Rightarrow> collect_catching fut order results_dict)"

fun collect_raising ::
  "(nat \<Rightarrow> py_error + nat \<times> track) \<Rightarrow> nat list \<Rightarrow> (nat \<rightharpoonup> track)
     \<Rightarrow> py_error + (nat \<rightharpoonup> track)" where
  "collect_raising fut [] results_dict = Inr results_dict"
| "collect_raising fut (i # order) results_dict =
     (case fut i of
        Inr (index, updated_track) \<Rightarrow> collect_raising fut order (results_dict(index \<mapsto> updated_track))
      | Inl e \<Rightarrow> Inl e)"

text \<open>\<^verbatim>\<open>[results_dict[i] for i in range(len(tracks))]\<close>: a missing key raises.\<close>

fun in_input_order :: "(nat \<rightharpoonup> track) \<Rightarrow> nat list \<Rightarrow> py_error + track list" where
  "in_input_order results_dict [] = Inr []"
| "in_input_order results_dict (i # is) =
     (case results_dict i of
        None \<Rightarrow> Inl KeyError
      | Some t \<Rightarrow> (case in_input_order results_dict is of
                    Inl e \<Rightarrow> Inl e
                  | Inr ts \<Rightarrow> Inr (t # ts)))"

definition add_audio_features_to_tracks ::
  "finder \<Rightarrow> estimator \<Rightarrow> (string \<times> string) option \<Rightarrow> nat list \<Rightarrow> track list
     \<Rightarrow> py_error + track list" where
  "add_audio_features_to_tracks finder estimate spotify_credentials order tracks =
     (if tracks = [] then Inr tracks
      else
        (let results_dict =
               collect_catching
                 (\<lambda>i. analyze_track_with_index finder estimate spotify_credentials i (tracks ! i))
                 order Map.empty
         in in_input_order results_dict [0..<length tracks]))"

section \<open>Lyrics enrichment (lyrics_fetch.py)\<close>

text \<open>
  What \<^verbatim>\<open>genius_client.search_song(title, artist)\<close> does: it raises, finds nothing, or
  returns a song with its lyrics text and its \<^verbatim>\<open>url\<close> (\<open>PNone\<close> when the song object
  has no such attribute).
\<close>

datatype genius_result = Search_Raises | No_Song | Song string pyval

type_synonym genius = "pyval \<Rightarrow> pyval \<Rightarrow> genius_result"

definition is_space :: "char \<Rightarrow> bool" where
  "is_space c = (c \<in> set [CHR '' '', CHR 0x09, CHR 0x0A, CHR 0x0B, CHR 0x0C, CHR 0x0D])"

definition py_strip :: "string \<Rightarrow> string" where
  "py_strip s = rev (dropWhile is_space (rev (dropWhile is_space s)))"

fun contains :: "string \<Rightarrow> string \<Rightarrow> bool" where
  "contains sub [] = (sub = [])"
| "contains sub (c # cs) = (take (length sub) (c # cs) = sub \<or> contains sub cs)"

text \<open>\<^verbatim>\<open>s.split(sep)[0]\<close>: the text before the first occurrence of \<open>sep\<close>.\<close>

fun before_sep :: "string \<Rightarrow> string \<Rightarrow> string" where
  "before_sep sep [] = []"
| "before_sep sep (c # cs) =
     (if take (length sep) (c # cs) = sep then [] else c # before_sep sep cs)"

text \<open>The cleaning of the lyrics text (lyrics_fetch.py, lines 55-56) as a function.\<close>

definition cleaned :: "string \<Rightarrow> string" where
  "cleaned song_lyrics =
     (let lyrics0 = py_strip song_lyrics
      in if contains ''Embed'' lyrics0 then py_strip (before_sep ''Embed'' lyrics0) else lyrics0)"

definition fetch_lyrics_single :: "genius \<Rightarrow> track \<Rightarrow> py_error + track" where
  "fetch_lyrics_single genius_client track =
     (let title = dict_get track ''title'' (PStr []);
          artists = dict_get track ''artists'' (PList [])
      in case first_or artists (PStr []) of
           Inl e \<Rightarrow> Inl e
         | Inr artist \<Rightarrow>
             if track ''lyrics'' \<noteq> None \<and> truthy (py_get track ''lyrics'') then Inr track
             else (case genius_client title artist of
                     Song song_lyrics url \<Rightarrow>
                       if song_lyrics \<noteq> []
                       then (let lyrics0 = py_strip song_lyrics;
                                 lyrics = (if contains ''Embed'' lyrics0
                                           then py_strip (before_sep ''Embed'' lyrics0)
                                           else lyrics0)
                             in Inr (track(''lyrics'' \<mapsto> PStr lyrics,
                                           ''lyrics_source'' \<mapsto> PStr ''genius'',
                                           ''genius_url'' \<mapsto> url)))
                       else Inr (track(''lyrics'' \<mapsto> PNone, ''lyrics_source'' \<mapsto> PNone))
                   | No_Song \<Rightarrow> Inr (track(''lyrics'' \<mapsto> PNone, ''lyrics_source'' \<mapsto> PNone))
                   | Search_Raises \<Rightarrow>
                       Inr (track(''lyrics'' \<mapsto> PNone, ''lyrics_source'' \<mapsto> PNone))))"

definition fetch_lyrics_for_tracks :: "genius \<Rightarrow> nat list \<Rightarrow> track list \<Rightarrow> py_error + track list" where
  "fetch_lyrics_for_tracks genius_client order tracks =
     (let fetch_with_index =
            (\<lambda>index track. case fetch_lyrics_single genius_client track of
                              Inl e \<Rightarrow> Inl e
                            | Inr t \<Rightarrow> Inr (index, t))
      in case collect_raising (\<lambda>i. fetch_with_index i (tracks ! i)) order Map.empty of
           Inl e \<Rightarrow> Inl e
         | Inr results_dict \<Rightarrow> in_input_order results_dict [0..<length tracks])"


section \<open>Sentiment enrichment (sentiment_analysis.py)\<close>

text \<open>
  The classifier is a parameter: on a stanza it raises (also when its result cannot be
  indexed) or returns a label and a confidence. The regular-expression text processing
  of \<^verbatim>\<open>preprocess_lyrics_for_sentiment\<close> and \<^verbatim>\<open>split_into_stanzas\<close> is a parameter as
  well (\<open>preprocess\<close>, \<open>split\<close>); nothing below depends on what they compute.
\<close>

datatype clf_result = Clf_Raises | Clf string real

type_synonym classifier = "string \<Rightarrow> clf_result"

definition lower_char :: "char \<Rightarrow> char" where
  "lower_char c =
     (let n = (of_char c :: nat) in if 65 \<le> n \<and> n \<le> 90 then char_of (n + 32) else c)"

definition valence_of :: "string \<Rightarrow> real \<Rightarrow> real" where
  "valence_of raw_label score =
     (let label = map lower_char raw_label
      in if contains ''negative'' label \<or> label = ''label_0'' then (1 - score) * (1/2)
         else if contains ''neutral'' label \<or> label = ''label_1'' then 1/2
         else 1/2 + score * (1/2))"

fun score_stanzas :: "classifier \<Rightarrow> string list \<Rightarrow> real list" where
  "score_stanzas sentiment_classifier [] = []"
| "score_stanzas sentiment_classifier (stanza # stanzas) =
     (case sentiment_classifier (take 2000 stanza) of
        Clf label score \<Rightarrow> valence_of label score # score_stanzas sentiment_classifier stanzas
      | Clf_Raises \<Rightarrow> score_stanzas sentiment_classifier stanzas)"

definition no_sentiment :: "nat \<Rightarrow> track" where
  "no_sentiment chunks =
     [''sentiment_score'' \<mapsto> PNone,
      ''sentiment_chunks'' \<mapsto> PNum (real chunks),
      ''stanza_scores'' \<mapsto> PList []]"

definition analyze_sentiment ::
  "(string \<Rightarrow> string) \<Rightarrow> (string \<Rightarrow> string list) \<Rightarrow> classifier \<Rightarrow> pyval \<Rightarrow> py_error + track" where
  "analyze_sentiment preprocess split sentiment_classifier lyrics =
     (case lyrics of
        PStr s \<Rightarrow>
          if s = [] \<or> py_strip s = [] then Inr (no_sentiment 0)
          else
            (let processed = preprocess s
             in if processed = [] then Inr (no_sentiment 0)
                else
                  (let stanzas = split processed
                   in if stanzas = [] then Inr (no_sentiment 0)
                      else
                        (let stanza_scores = score_stanzas sentiment_classifier stanzas
                         in if stanza_scores = [] then Inr (no_sentiment (length stanzas))
                            else
                              (let raw_score = sum_list stanza_scores / real (length stanza_scores)
                               in Inr [''sentiment_score'' \<mapsto> PNum raw_score,
                                       ''sentiment_chunks'' \<mapsto> PNum (real (length stanzas)),
                                       ''stanza_scores'' \<mapsto> PList (map PNum stanza_scores)]))))
      | v \<Rightarrow> if \<not> truthy v then Inr (no_sentiment 0) else Inl AttributeError)"

definition analyze_sentiment_single ::
  "(string \<Rightarrow> string) \<Rightarrow> (string \<Rightarrow> string list) \<Rightarrow> classifier \<Rightarrow> track \<Rightarrow> track" where
  "analyze_sentiment_single preprocess split sentiment_classifier track =
     (let lyrics = dict_get track ''lyrics'' (PStr [])
      in if track ''sentiment_score'' \<noteq> None \<and> py_get track ''sentiment_score'' \<noteq> PNone
         then track
         else if \<not> truthy lyrics
         then track(''sentiment_score'' \<mapsto> PNone,
                    ''sentiment_chunks'' \<mapsto> PNum 0,
                    ''stanza_scores'' \<mapsto> PList [])
         else (case analyze_sentiment preprocess split sentiment_classifier lyrics of
                 Inr sentiment_result \<Rightarrow> track ++ sentiment_result
               | Inl e \<Rightarrow> track(''sentiment_score'' \<mapsto> PNone,
                                ''sentiment_chunks'' \<mapsto> PNum 0,
                                ''stanza_scores'' \<mapsto> PList [])))"

definition add_sentiment_to_tracks ::
  "(string \<Rightarrow> string) \<Rightarrow> (string \<Rightarrow> string list) \<Rightarrow> classifier \<Rightarrow> nat list \<Rightarrow> track list
     \<Rightarrow> py_error + track list" where
  "add_sentiment_to_tracks preprocess split sentiment_classifier order tracks =
     (let analyze_with_index =
            (\<lambda>index track.
               Inr (index, analyze_sentiment_single preprocess split sentiment_classifier track))
      in case collect_raising (\<lambda>i. analyze_with_index i (tracks ! i)) order Map.empty of
           Inl e \<Rightarrow> Inl e
         | Inr results_dict \<Rightarrow> in_input_order results_dict [0..<length tracks])"


section \<open>The job registry and the parallel flow (main.py)\<close>

text \<open>
  \<^verbatim>\<open>progress_store\<close> maps a job id to the job's progress dictionary; the record holds the
  keys the flows write and the stream reads. A key that a flow may leave out is an option.
\<close>

record job =
  job_stage :: string
  job_current :: int
  job_total :: int
  job_message :: "string option"
  job_tracks :: "track list"
  job_playlist_name :: "string option"
  job_output_file :: "string option"
  job_error :: "py_error option"

type_synonym registry = "string \<rightharpoonup> job"

record services =
  sv_finder :: finder
  sv_estimate :: estimator
  sv_credentials :: "(string \<times> string) option"
  sv_genius :: genius
  sv_preprocess :: "string \<Rightarrow> string"
  sv_split :: "string \<Rightarrow> string list"
  sv_classifier :: classifier

text \<open>
  \<^verbatim>\<open>process_features_with_progress\<close> runs two pipelines in two threads over the same list
  object \<^verbatim>\<open>tracks\<close>, which is also \<^verbatim>\<open>progress_store[job_id]['tracks']\<close>. Each pipeline
  submits one task per index, reading \<^verbatim>\<open>tracks[i]\<close> when it submits, and handles its
  futures as they complete; the callbacks replace \<^verbatim>\<open>tracks_list[index]\<close> by the task's
  result. A schedule is one interleaving of these steps. No dictionary is changed in
  place by a task (each works on a copy), so a list of dictionaries models the shared
  list. An index a callback writes is one that was submitted, hence in range.
\<close>

datatype action = Submit_Bpm | Submit_Sentiment | Complete_Bpm nat | Complete_Sentiment nat

record features_state =
  shared_tracks :: "track list"
  bpm_inputs :: "track list"
  sentiment_inputs :: "track list"
  bpm_done :: "nat set"
  sentiment_done :: "nat set"
  bpm_results :: "nat \<rightharpoonup> track"
  sentiment_results :: "nat \<rightharpoonup> track"
  bpm_completed :: nat
  sentiment_completed :: nat

definition bpm_track_callback :: "nat \<Rightarrow> track \<Rightarrow> features_state \<Rightarrow> features_state" where
  "bpm_track_callback index updated_track s =
     s\<lparr>shared_tracks := (shared_tracks s)[index := updated_track],
       bpm_completed := bpm_completed s + 1\<rparr>"

definition sentiment_track_callback :: "nat \<Rightarrow> track \<Rightarrow> features_state \<Rightarrow> features_state" where
  "sentiment_track_callback index updated_track s =
     s\<lparr>shared_tracks := (shared_tracks s)[index := updated_track],
       sentiment_completed := sentiment_completed s + 1\<rparr>"

definition process_sentiment_for_track :: "services \<Rightarrow> nat \<Rightarrow> track \<Rightarrow> py_error + nat \<times> track" where
  "process_sentiment_for_track sv index track =
     (case fetch_lyrics_single (sv_genius sv) track of
        Inl e \<Rightarrow> Inl e
      | Inr track_with_lyrics \<Rightarrow>
          Inr (index, analyze_sentiment_single (sv_preprocess sv) (sv_split sv) (sv_classifier sv)
                        track_with_lyrics))"

fun features_step :: "services \<Rightarrow> features_state \<Rightarrow> action \<Rightarrow> features_state" where
  "features_step sv s Submit_Bpm =
     (let i = length (bpm_inputs s)
      in if i < length (shared_tracks s)
         then s\<lparr>bpm_inputs := bpm_inputs s @ [shared_tracks s ! i]\<rparr> else s)"
| "features_step sv s Submit_Sentiment =
     (let i = length (sentiment_inputs s)
      in if i < length (shared_tracks s)
         then s\<lparr>sentiment_inputs := sentiment_inputs s @ [shared_tracks s ! i]\<rparr> else s)"
| "features_step sv s (Complete_Bpm i) =
     (if i < length (bpm_inputs s) \<and> i \<notin> bpm_done s
      then (case analyze_track_with_index (sv_finder sv) (sv_estimate sv) (sv_credentials sv) i
                   (bpm_inputs s ! i) of
              Inr (index, updated_track) \<Rightarrow>
                bpm_track_callback index updated_track
                  (s\<lparr>bpm_done := insert i (bpm_done s),
                     bpm_results := (bpm_results s)(index \<mapsto> updated_track)\<rparr>)
            | Inl e \<Rightarrow> s\<lparr>bpm_done := insert i (bpm_done s)\<rparr>)
      else s)"
| "features_step sv s (Complete_Sentiment i) =
     (if i < length (sentiment_inputs s) \<and> i \<notin> sentiment_done s
      then (case process_sentiment_for_track sv i (sentiment_inputs s ! i) of
              Inr (index, updated_track) \<Rightarrow>
                sentiment_track_callback index updated_track
                  (s\<lparr>sentiment_done := insert i (sentiment_done s),
                     sentiment_results := (sentiment_results s)(index \<mapsto> updated_track)\<rparr>)
            | Inl e \<Rightarrow> s\<lparr>sentiment_done := insert i (sentiment_done s)\<rparr>)
      else s)"

definition run_pipelines :: "services \<Rightarrow> action list \<Rightarrow> track list \<Rightarrow> features_state" where
  "run_pipelines sv schedule tracks =
     foldl (features_step sv)
       \<lparr>shared_tracks = tracks, bpm_inputs = [], sentiment_inputs = [],
        bpm_done = {}, sentiment_done = {},
        bpm_results = Map.empty, sentiment_results = Map.empty,
        bpm_completed = 0, sentiment_completed = 0\<rparr>
       schedule"

text \<open>\<^verbatim>\<open>asyncio.gather\<close> returns once both pipelines have handled every future.\<close>

definition joined :: "features_state \<Rightarrow> bool" where
  "joined s =
     (let n = length (shared_tracks s)
      in length (bpm_inputs s) = n \<and> length (sentiment_inputs s) = n
         \<and> list_all (\<lambda>i. i \<in> bpm_done s) [0..<n]
         \<and> list_all (\<lambda>i. i \<in> sentiment_done s) [0..<n])"

text \<open>The merge loop (lines 430-438): copy, then \<^verbatim>\<open>dict.update\<close> with each result.\<close>

definition merge_results ::
  "track list \<Rightarrow> (nat \<rightharpoonup> track) \<Rightarrow> (nat \<rightharpoonup> track) \<Rightarrow> track list" where
  "merge_results tracks bpm_res sentiment_res =
     map (\<lambda>i. let track0 = tracks ! i;
                   track1 = (case bpm_res i of Some b \<Rightarrow> track0 ++ b | None \<Rightarrow> track0);
                   track2 = (case sentiment_res i of Some s \<Rightarrow> track1 ++ s | None \<Rightarrow> track1)
               in track2)
       [0..<length tracks]"

text \<open>
  The whole background task, for a schedule: \<open>None\<close> when the schedule ends before the
  join. The assignment at the start replaces the job's dictionary, so the playlist name
  the endpoint stored is gone; \<open>output_file\<close> is what \<^verbatim>\<open>save_playlist_json\<close> returns.
\<close>

definition process_features_with_progress ::
  "services \<Rightarrow> string \<Rightarrow> action list \<Rightarrow> track list \<Rightarrow> string \<Rightarrow> registry \<Rightarrow> registry option" where
  "process_features_with_progress sv output_file schedule tracks job_id store =
     (let s = run_pipelines sv schedule tracks
      in if \<not> joined s then None
         else
           (let final_tracks = merge_results (shared_tracks s) (bpm_results s) (sentiment_results s)
            in case normalize_sentiment_scores final_tracks of
                 Inl e \<Rightarrow>
                   Some (store(job_id \<mapsto>
                     \<lparr>job_stage = ''error'', job_current = 0, job_total = int (length tracks),
                      job_message = Some ''Starting feature extraction...'',
                      job_tracks = shared_tracks s, job_playlist_name = None,
                      job_output_file = None, job_error = Some e\<rparr>))
               | Inr normalized \<Rightarrow>
                   Some (store(job_id \<mapsto>
                     \<lparr>job_stage = ''complete'', job_current = int (length normalized),
                      job_total = int (length normalized),
                      job_message = Some ''Complete'',
                      job_tracks = normalized, job_playlist_name = None,
                      job_output_file = Some output_file, job_error = None\<rparr>))))"

section \<open>The progress stream (main.py, stream_progress)\<close>

text \<open>
  The events the generator yields, one constructor per dictionary it serialises: the
  not-found error, a per-track update (its field and its \<^verbatim>\<open>track_update\<close> payload), the
  first progress event with the track list, a later progress event, and the final event
  (stage, current, total, message, tracks, playlist name, output file).
\<close>

datatype event =
    Error_Event string
  | Track_Update string "(string \<times> pyval) list"
  | Progress_Initial string int int string "track list" string
  | Progress_Update string int int string
  | Final_Event string int int string "track list" string string

record gen_state =
  last_stage :: "string option"
  last_current :: int
  last_bpm_updates :: "pyval set"
  last_sentiment_updates :: "pyval set"
  tracks_sent :: bool

definition initial_gen :: gen_state where
  "initial_gen =
     \<lparr>last_stage = None, last_current = - 1, last_bpm_updates = {},
      last_sentiment_updates = {}, tracks_sent = False\<rparr>"

text \<open>
  Membership in a Python \<^verbatim>\<open>set\<close> hashes the value first: \<^verbatim>\<open>None\<close>, numbers and
  strings are hashable, a list is not, and \<^verbatim>\<open>x not in s\<close> raises \<^verbatim>\<open>TypeError\<close> for it.
\<close>

fun hashable :: "pyval \<Rightarrow> bool" where
  "hashable (PList vs) = False"
| "hashable v = True"

text \<open>
  The body of the loop over the tracks (lines 544-584) for one track. A track whose id
  is truthy and unhashable makes the first membership test (line 550) raise, before
  anything is yielded for that track.
\<close>

definition scan_track ::
  "track \<Rightarrow> pyval set \<Rightarrow> pyval set \<Rightarrow> py_error + event list \<times> pyval set \<times> pyval set" where
  "scan_track track bpm_sent sentiment_sent =
     (let track_id = py_get track ''track_id''
      in if \<not> truthy track_id then Inr ([], bpm_sent, sentiment_sent)
         else if \<not> hashable track_id then Inl TypeError
         else
           (let tempo = py_get track ''tempo'';
                audio_error = py_get track ''audio_features_error'';
                bpm_new = (track_id \<notin> bpm_sent \<and> (tempo \<noteq> PNone \<or> truthy audio_error));
                sentiment_score = py_get track ''sentiment_score'';
                sentiment_error = py_get track ''sentiment_error'';
                sentiment_new = (track_id \<notin> sentiment_sent
                                 \<and> (sentiment_score \<noteq> PNone \<or> truthy sentiment_error))
            in Inr ((if bpm_new
                     then [Track_Update ''tempo''
                             [(''track_id'', track_id), (''tempo'', tempo),
                              (''audio_features_error'', audio_error)]]
                     else [])
                    @ (if sentiment_new
                       then [Track_Update ''sentiment''
                               [(''track_id'', track_id), (''sentiment_score'', sentiment_score),
                                (''sentiment_label'', py_get track ''sentiment_label''),
                                (''sentiment_error'', sentiment_error)]]
                       else []),
                    if bpm_new then insert track_id bpm_sent else bpm_sent,
                    if sentiment_new then insert track_id sentiment_sent else sentiment_sent)))"

text \<open>
  The loop over the tracks: the events yielded, the two sets of sent ids, and the
  exception that ended the loop, if one did (the events yielded before it are out).
\<close>

fun scan_tracks ::
  "track list \<Rightarrow> pyval set \<Rightarrow> pyval set
     \<Rightarrow> event list \<times> pyval set \<times> pyval set \<times> py_error option" where
  "scan_tracks [] bpm_sent sentiment_sent = ([], bpm_sent, sentiment_sent, None)"
| "scan_tracks (track # rest) bpm_sent sentiment_sent =
     (case scan_track track bpm_sent sentiment_sent of
        Inl e \<Rightarrow> ([], bpm_sent, sentiment_sent, Some e)
      | Inr (evs, bpm_sent1, sentiment_sent1) \<Rightarrow>
          (case scan_tracks rest bpm_sent1 sentiment_sent1 of
             (evs', bpm_sent2, sentiment_sent2, raised) \<Rightarrow>
               (evs @ evs', bpm_sent2, sentiment_sent2, raised)))"

text \<open>
  How the generator stands after a pass of the \<^verbatim>\<open>while True\<close> loop: it goes on to
  sleep and poll again, it has left the loop with \<^verbatim>\<open>break\<close> and returned, or an
  exception has ended it.
\<close>

datatype outcome = Polling | Returned | Raised py_error

text \<open>The final event, \<^verbatim>\<open>complete_data\<close> (lines 619-628), of a job's progress dictionary.\<close>

definition complete_data :: "job \<Rightarrow> event" where
  "complete_data progress =
     Final_Event (job_stage progress) (job_current progress) (job_total progress)
       (case job_message progress of None \<Rightarrow> [] | Some m \<Rightarrow> m)
       (job_tracks progress)
       (case job_playlist_name progress of None \<Rightarrow> [] | Some n \<Rightarrow> n)
       (case job_output_file progress of None \<Rightarrow> [] | Some f \<Rightarrow> f)"

text \<open>
  One pass of the loop: the events it yields, the generator's variables after it, and
  how the generator stands. The pass only reads the store.
\<close>

definition poll :: "string \<Rightarrow> gen_state \<Rightarrow> registry \<Rightarrow> event list \<times> gen_state \<times> outcome" where
  "poll job_id g store =
     (case store job_id of
        None \<Rightarrow> ([Error_Event ''Job not found''], g, Returned)
      | Some progress \<Rightarrow>
          (let stage = job_stage progress;
               current = job_current progress;
               tracks = job_tracks progress
           in case scan_tracks tracks (last_bpm_updates g) (last_sentiment_updates g) of
                (updates, bpm_sent, sentiment_sent, Some e) \<Rightarrow>
                  (updates,
                   g\<lparr>last_bpm_updates := bpm_sent, last_sentiment_updates := sentiment_sent\<rparr>,
                   Raised e)
              | (updates, bpm_sent, sentiment_sent, None) \<Rightarrow>
                  (let g1 = g\<lparr>last_bpm_updates := bpm_sent, last_sentiment_updates := sentiment_sent\<rparr>;
                       message_or = (\<lambda>dflt. case job_message progress of None \<Rightarrow> dflt | Some m \<Rightarrow> m);
                       playlist_name = (case job_playlist_name progress of None \<Rightarrow> [] | Some n \<Rightarrow> n);
                       (prog, g2) =
                         (if tracks \<noteq> [] \<and> \<not> tracks_sent g1
                          then ([Progress_Initial (if stage = [] then ''tracks'' else stage) current
                                   (int (length tracks)) (message_or ''Tracks loaded'') tracks
                                   playlist_name],
                                g1\<lparr>tracks_sent := True, last_stage := Some stage,
                                   last_current := current\<rparr>)
                          else if Some stage \<noteq> last_stage g1 \<or> current \<noteq> last_current g1
                          then ([Progress_Update stage current (job_total progress) (message_or [])],
                                g1\<lparr>last_stage := Some stage, last_current := current\<rparr>)
                          else ([], g1))
                   in if stage \<in> set [''complete'', ''error'']
                      then (updates @ prog @ [complete_data progress], g2, Returned)
                      else (updates @ prog, g2, Polling))))"

text \<open>
  The generator, run against a store that the background task changes while the
  generator sleeps: \<open>works\<close> lists what happens to the store during each successive
  \<^verbatim>\<open>asyncio.sleep\<close>. The result is the events yielded, the store as the generator leaves
  it, and how the generator stands (\<open>Polling\<close>: it is still in its loop when the listed
  sleeps are over).
\<close>

fun generate ::
  "string \<Rightarrow> (registry \<Rightarrow> registry) list \<Rightarrow> gen_state \<Rightarrow> registry
     \<Rightarrow> event list \<times> registry \<times> outcome" where
  "generate job_id [] g store =
     (case poll job_id g store of (evs, g', out) \<Rightarrow> (evs, store, out))"
| "generate job_id (work # works) g store =
     (case poll job_id g store of
        (evs, g', Polling) \<Rightarrow>
          (case generate job_id works g' (work store) of
             (evs', store', out) \<Rightarrow> (evs @ evs', store', out))
      | (evs, g', out) \<Rightarrow> (evs, store, out))"

definition stream_progress ::
  "string \<Rightarrow> (registry \<Rightarrow> registry) list \<Rightarrow> registry \<Rightarrow> event list \<times> registry \<times> outcome" where
  "stream_progress job_id works store = generate job_id works initial_gen store"

text \<open>Reading the events: the updates for one track id and field, and the final events.\<close>

fun is_update_for :: "string \<Rightarrow> pyval \<Rightarrow> event \<Rightarrow> bool" where
  "is_update_for field track_id (Track_Update f payload) =
     (f = field \<and> map_of payload ''track_id'' = Some track_id)"
| "is_update_for field track_id ev = False"

fun is_final :: "event \<Rightarrow> bool" where
  "is_final (Final_Event stage current tot message tracks playlist_name output_file) = True"
| "is_final ev = False"




section \<open>Normalisation: properties\<close>

text \<open>
  C7. With fewer than two present sentiment scores the function returns the list it was
  given: no score is changed and no \<^verbatim>\<open>raw_sentiment\<close> or \<^verbatim>\<open>normalized_sentiment\<close>
  is added.
\<close>

theorem normalize_small_sample_noop:
  assumes "length (present_scores tracks) < 2"
  shows "normalize_sentiment_scores tracks = Inr tracks"
  using assms by (simp add: normalize_sentiment_scores_def)

theorem normalize_small_sample_noop_witness:
  "length (present_scores [[''sentiment_score'' \<mapsto> PNum (3/5)], [''title'' \<mapsto> PStr ''a'']]) < 2
   \<and> normalize_sentiment_scores [[''sentiment_score'' \<mapsto> PNum (3/5)], [''title'' \<mapsto> PStr ''a'']]
       = Inr [[''sentiment_score'' \<mapsto> PNum (3/5)], [''title'' \<mapsto> PStr ''a'']]"
proof -
  have h: "length (present_scores [[''sentiment_score'' \<mapsto> PNum (3/5)], [''title'' \<mapsto> PStr ''a'']]) < 2"
    by (simp add: present_scores_def py_get_def dict_get_def)
  show ?thesis using h normalize_small_sample_noop [OF h] by simp
qed


lemma as_floats_length: "as_floats vs = Some xs \<Longrightarrow> length xs = length vs"
  by (induction vs arbitrary: xs rule: as_floats.induct) auto

lemma as_floats_all_num:
  "as_floats vs = Some xs \<Longrightarrow> v \<in> set vs \<Longrightarrow> \<exists>r. v = PNum r"
  by (induction vs arbitrary: xs rule: as_floats.induct) auto

lemma present_scores_mem:
  "t \<in> set tracks \<Longrightarrow> py_get t ''sentiment_score'' \<noteq> PNone
     \<Longrightarrow> py_get t ''sentiment_score'' \<in> set (present_scores tracks)"
  by (auto simp: present_scores_def)

lemma score_none_or_num:
  assumes "as_floats (present_scores tracks) = Some xs" and "t \<in> set tracks"
  shows "py_get t ''sentiment_score'' = PNone \<or> (\<exists>r. py_get t ''sentiment_score'' = PNum r)"
  using assms as_floats_all_num present_scores_mem by blast

lemma sigmoid_mono:
  fixes s :: real
  assumes "0 < iqr" and "s \<le> s'"
  shows "1 / (1 + exp (- ((s - m) / iqr))) \<le> 1 / (1 + exp (- ((s' - m) / iqr)))"
proof -
  have "(s - m) / iqr \<le> (s' - m) / iqr"
    using assms by (simp add: divide_right_mono)
  then have "exp (- ((s' - m) / iqr)) \<le> exp (- ((s - m) / iqr))" by simp
  moreover have "0 < 1 + exp (- ((s' - m) / iqr))"
    by (simp add: add_pos_pos)
  ultimately show ?thesis
    by (intro divide_left_mono) (auto simp: add_pos_pos)
qed



lemma normalize_unfold:
  assumes "as_floats (present_scores tracks) = Some xs" and "2 \<le> length xs"
  shows "normalize_sentiment_scores tracks =
           (if np_percentile xs 75 - np_percentile xs 25 < 1 / 1000000
            then Inr (map collapse_track tracks)
            else Inr (map (squash_track (np_median xs)
                             (np_percentile xs 75 - np_percentile xs 25)) tracks))"
  using assms as_floats_length [OF assms(1)]
  by (simp add: normalize_sentiment_scores_def Let_def)

lemma collapse_track_present:
  assumes "py_get t ''sentiment_score'' \<noteq> PNone"
  shows "py_get (collapse_track t) ''sentiment_score'' = PNum (1/2)"
    and "py_get (collapse_track t) ''normalized_sentiment'' = PNum (1/2)"
    and "py_get (collapse_track t) ''raw_sentiment'' = py_get t ''sentiment_score''"
  using assms by (simp_all add: collapse_track_def py_get_def dict_get_def)

lemma collapse_track_absent:
  "py_get t ''sentiment_score'' = PNone \<Longrightarrow> collapse_track t = t"
  by (simp add: collapse_track_def)

lemma squash_track_present:
  assumes "py_get t ''sentiment_score'' = PNum s"
  shows "py_get (squash_track m iqr t) ''sentiment_score'' = PNum (1 / (1 + exp (- ((s - m) / iqr))))"
    and "py_get (squash_track m iqr t) ''normalized_sentiment'' = PNum (1 / (1 + exp (- ((s - m) / iqr))))"
    and "py_get (squash_track m iqr t) ''raw_sentiment'' = PNum s"
  using assms by (simp_all add: squash_track_def py_get_def dict_get_def Let_def)

lemma squash_track_absent:
  "py_get t ''sentiment_score'' = PNone \<Longrightarrow> squash_track m iqr t = t"
  by (simp add: squash_track_def)

text \<open>
  C6. When at least two scores are present and the interquartile range is below 1e-6,
  every track with a present score gets \<^verbatim>\<open>sentiment_score\<close> and \<^verbatim>\<open>normalized_sentiment\<close>
  0.5 and keeps its old score in \<^verbatim>\<open>raw_sentiment\<close>; a track without a score is
  returned as it was.
\<close>

theorem normalize_degenerate:
  assumes "as_floats (present_scores tracks) = Some xs"
    and "2 \<le> length xs"
    and "np_percentile xs 75 - np_percentile xs 25 < 1 / 1000000"
  shows "\<exists>res. normalize_sentiment_scores tracks = Inr res \<and> length res = length tracks \<and>
           (\<forall>i<length tracks.
              (py_get (tracks ! i) ''sentiment_score'' \<noteq> PNone \<longrightarrow>
                 py_get (res ! i) ''sentiment_score'' = PNum (1/2) \<and>
                 py_get (res ! i) ''normalized_sentiment'' = PNum (1/2) \<and>
                 py_get (res ! i) ''raw_sentiment'' = py_get (tracks ! i) ''sentiment_score'') \<and>
              (py_get (tracks ! i) ''sentiment_score'' = PNone \<longrightarrow> res ! i = tracks ! i))"
proof -
  have eq: "normalize_sentiment_scores tracks = Inr (map collapse_track tracks)"
    using normalize_unfold [OF assms(1,2)] assms(3) by simp
  show ?thesis
    unfolding eq
    by (intro exI [of _ "map collapse_track tracks"])
       (simp add: collapse_track_present collapse_track_absent)
qed

text \<open>
  C5. When at least two scores are present and the interquartile range is at least 1e-6,
  every present score \<open>s\<close> is replaced by \<open>1 / (1 + exp (- z))\<close> with
  \<open>z = (s - median) / IQR\<close>, also stored as \<^verbatim>\<open>normalized_sentiment\<close>, the old score
  is kept in \<^verbatim>\<open>raw_sentiment\<close>, a score equal to the median becomes exactly 0.5, the
  new score is monotone in the old one, and a track without a score is returned as it
  was. Scores are real numbers here; rounding is not modelled.
\<close>

theorem normalize_formula:
  assumes "as_floats (present_scores tracks) = Some xs"
    and "2 \<le> length xs"
    and "1 / 1000000 \<le> np_percentile xs 75 - np_percentile xs 25"
  shows "\<exists>res. normalize_sentiment_scores tracks = Inr res \<and> length res = length tracks \<and>
           (\<forall>i<length tracks.
              (py_get (tracks ! i) ''sentiment_score'' = PNone \<longrightarrow> res ! i = tracks ! i) \<and>
              (\<forall>s. py_get (tracks ! i) ''sentiment_score'' = PNum s \<longrightarrow>
                 py_get (res ! i) ''sentiment_score'' =
                   PNum (1 / (1 + exp (- ((s - np_median xs)
                                            / (np_percentile xs 75 - np_percentile xs 25))))) \<and>
                 py_get (res ! i) ''normalized_sentiment'' = py_get (res ! i) ''sentiment_score'' \<and>
                 py_get (res ! i) ''raw_sentiment'' = PNum s \<and>
                 (s = np_median xs \<longrightarrow> py_get (res ! i) ''sentiment_score'' = PNum (1/2)) \<and>
                 (\<forall>j<length tracks. \<forall>s'.
                    py_get (tracks ! j) ''sentiment_score'' = PNum s' \<and> s \<le> s' \<longrightarrow>
                    (\<exists>v v'. py_get (res ! i) ''sentiment_score'' = PNum v \<and>
                             py_get (res ! j) ''sentiment_score'' = PNum v' \<and> v \<le> v'))))"
proof -
  let ?m = "np_median xs"
  let ?iqr = "np_percentile xs 75 - np_percentile xs 25"
  let ?res = "map (squash_track ?m ?iqr) tracks"
  have pos: "0 < ?iqr" using assms(3) by linarith
  have eq: "normalize_sentiment_scores tracks = Inr ?res"
    using normalize_unfold [OF assms(1,2)] assms(3) by simp
  have main: "\<forall>i<length tracks.
              (py_get (tracks ! i) ''sentiment_score'' = PNone \<longrightarrow> ?res ! i = tracks ! i) \<and>
              (\<forall>s. py_get (tracks ! i) ''sentiment_score'' = PNum s \<longrightarrow>
                 py_get (?res ! i) ''sentiment_score'' = PNum (1 / (1 + exp (- ((s - ?m) / ?iqr)))) \<and>
                 py_get (?res ! i) ''normalized_sentiment'' = py_get (?res ! i) ''sentiment_score'' \<and>
                 py_get (?res ! i) ''raw_sentiment'' = PNum s \<and>
                 (s = ?m \<longrightarrow> py_get (?res ! i) ''sentiment_score'' = PNum (1/2)) \<and>
                 (\<forall>j<length tracks. \<forall>s'.
                    py_get (tracks ! j) ''sentiment_score'' = PNum s' \<and> s \<le> s' \<longrightarrow>
                    (\<exists>v v'. py_get (?res ! i) ''sentiment_score'' = PNum v \<and>
                             py_get (?res ! j) ''sentiment_score'' = PNum v' \<and> v \<le> v')))"
  proof (intro allI impI conjI)
    fix i assume "i < length tracks" "py_get (tracks ! i) ''sentiment_score'' = PNone"
    then show "?res ! i = tracks ! i" by (simp add: squash_track_absent)
  next
    fix i s assume i: "i < length tracks" and s: "py_get (tracks ! i) ''sentiment_score'' = PNum s"
    show "py_get (?res ! i) ''sentiment_score'' = PNum (1 / (1 + exp (- ((s - ?m) / ?iqr))))"
      using i s by (simp add: squash_track_present)
    show "py_get (?res ! i) ''normalized_sentiment'' = py_get (?res ! i) ''sentiment_score''"
      using i s by (simp add: squash_track_present)
    show "py_get (?res ! i) ''raw_sentiment'' = PNum s"
      using i s by (simp add: squash_track_present)
  next
    fix i s assume i: "i < length tracks" and s: "py_get (tracks ! i) ''sentiment_score'' = PNum s"
      and "s = ?m"
    then show "py_get (?res ! i) ''sentiment_score'' = PNum (1/2)"
      by (simp add: squash_track_present)
  next
    fix i s j s'
    assume i: "i < length tracks" and s: "py_get (tracks ! i) ''sentiment_score'' = PNum s"
      and j: "j < length tracks"
      and s': "py_get (tracks ! j) ''sentiment_score'' = PNum s' \<and> s \<le> s'"
    have "1 / (1 + exp (- ((s - ?m) / ?iqr))) \<le> 1 / (1 + exp (- ((s' - ?m) / ?iqr)))"
      using sigmoid_mono [OF pos] s' by blast
    then show "\<exists>v v'. py_get (?res ! i) ''sentiment_score'' = PNum v \<and>
                      py_get (?res ! j) ''sentiment_score'' = PNum v' \<and> v \<le> v'"
      using i j s s' by (simp add: squash_track_present)
  qed
  have len: "length ?res = length tracks" by simp
  show ?thesis
    unfolding eq
    apply (rule exI [of _ ?res])
    apply (intro conjI)
      apply (rule refl)
     apply (rule len)
    apply (rule main)
    done
qed


theorem normalize_formula_witness:
  "as_floats (present_scores
      [[''sentiment_score'' \<mapsto> PNum (1/5)], [''sentiment_score'' \<mapsto> PNum (1/2)],
       [''title'' \<mapsto> PStr ''a''], [''sentiment_score'' \<mapsto> PNum (4/5)]])
     = Some [1/5, 1/2, 4/5]
   \<and> 2 \<le> length [1/5, 1/2, 4/5 :: real]
   \<and> 1 / 1000000 \<le> np_percentile [1/5, 1/2, 4/5] 75 - np_percentile [1/5, 1/2, 4/5] 25
   \<and> np_median [1/5, 1/2, 4/5] = 1/2
   \<and> np_percentile [1/5, 1/2, 4/5] 75 - np_percentile [1/5, 1/2, 4/5] 25 = 3/10
   \<and> (\<exists>res. normalize_sentiment_scores
          [[''sentiment_score'' \<mapsto> PNum (1/5)], [''sentiment_score'' \<mapsto> PNum (1/2)],
           [''title'' \<mapsto> PStr ''a''], [''sentiment_score'' \<mapsto> PNum (4/5)]] = Inr res
        \<and> py_get (res ! 1) ''sentiment_score'' = PNum (1/2)
        \<and> py_get (res ! 1) ''raw_sentiment'' = PNum (1/2)
        \<and> res ! 2 = [''title'' \<mapsto> PStr ''a''])"
proof -
  let ?T = "[[''sentiment_score'' \<mapsto> PNum (1/5)], [''sentiment_score'' \<mapsto> PNum (1/2)],
             [''title'' \<mapsto> PStr ''a''], [''sentiment_score'' \<mapsto> PNum (4/5)]] :: track list"
  let ?xs = "[1/5, 1/2, 4/5] :: real list"
  have h1: "as_floats (present_scores ?T) = Some ?xs"
    by (simp add: present_scores_def py_get_def dict_get_def)
  have h2: "2 \<le> length ?xs" by simp
  have med: "np_median ?xs = 1/2" by (simp add: np_median_def)
  have iqr: "np_percentile ?xs 75 - np_percentile ?xs 25 = 3/10"
    by (simp add: np_percentile_def)
  have h3: "1 / 1000000 \<le> np_percentile ?xs 75 - np_percentile ?xs 25"
    unfolding iqr by simp
  from normalize_formula [OF h1 h2 h3] obtain res where
    r: "normalize_sentiment_scores ?T = Inr res" and
    a: "\<forall>i<length ?T.
              (py_get (?T ! i) ''sentiment_score'' = PNone \<longrightarrow> res ! i = ?T ! i) \<and>
              (\<forall>s. py_get (?T ! i) ''sentiment_score'' = PNum s \<longrightarrow>
                 py_get (res ! i) ''sentiment_score'' =
                   PNum (1 / (1 + exp (- ((s - np_median ?xs)
                                            / (np_percentile ?xs 75 - np_percentile ?xs 25))))) \<and>
                 py_get (res ! i) ''normalized_sentiment'' = py_get (res ! i) ''sentiment_score'' \<and>
                 py_get (res ! i) ''raw_sentiment'' = PNum s \<and>
                 (s = np_median ?xs \<longrightarrow> py_get (res ! i) ''sentiment_score'' = PNum (1/2)) \<and>
                 (\<forall>j<length ?T. \<forall>s'.
                    py_get (?T ! j) ''sentiment_score'' = PNum s' \<and> s \<le> s' \<longrightarrow>
                    (\<exists>v v'. py_get (res ! i) ''sentiment_score'' = PNum v \<and>
                             py_get (res ! j) ''sentiment_score'' = PNum v' \<and> v \<le> v')))"
    by blast
  have s1: "py_get (?T ! 1) ''sentiment_score'' = PNum (1/2)"
    by (simp add: py_get_def dict_get_def)
  have s2: "py_get (?T ! 2) ''sentiment_score'' = PNone"
    by (simp add: py_get_def dict_get_def)
  have l1: "1 < length ?T" and l2: "2 < length ?T" by simp_all
  note b = a [THEN spec, of 1, THEN mp, OF l1, THEN conjunct2, THEN spec, of "1/2", THEN mp, OF s1]
  have a1: "py_get (res ! 1) ''sentiment_score'' = PNum (1/2)
            \<and> py_get (res ! 1) ''raw_sentiment'' = PNum (1/2)"
    using b [THEN conjunct2, THEN conjunct2, THEN conjunct1]
      b [THEN conjunct2, THEN conjunct2, THEN conjunct2, THEN conjunct1] med
    by simp
  have a2: "res ! 2 = [''title'' \<mapsto> PStr ''a'']"
    using a [THEN spec, of 2, THEN mp, OF l2, THEN conjunct1] s2 by simp
  show ?thesis
    using h1 h2 h3 med iqr r a1 a2 by blast
qed

theorem normalize_degenerate_witness:
  "as_floats (present_scores
      [[''sentiment_score'' \<mapsto> PNum (3/5)], [''title'' \<mapsto> PStr ''a''],
       [''sentiment_score'' \<mapsto> PNum (3/5)], [''sentiment_score'' \<mapsto> PNum (3/5)]])
     = Some [3/5, 3/5, 3/5]
   \<and> 2 \<le> length [3/5, 3/5, 3/5 :: real]
   \<and> np_percentile [3/5, 3/5, 3/5] 75 - np_percentile [3/5, 3/5, 3/5] 25 < 1 / 1000000
   \<and> (\<exists>res. normalize_sentiment_scores
          [[''sentiment_score'' \<mapsto> PNum (3/5)], [''title'' \<mapsto> PStr ''a''],
           [''sentiment_score'' \<mapsto> PNum (3/5)], [''sentiment_score'' \<mapsto> PNum (3/5)]] = Inr res
        \<and> py_get (res ! 0) ''sentiment_score'' = PNum (1/2)
        \<and> py_get (res ! 0) ''normalized_sentiment'' = PNum (1/2)
        \<and> py_get (res ! 0) ''raw_sentiment'' = PNum (3/5)
        \<and> res ! 1 = [''title'' \<mapsto> PStr ''a''])"
proof -
  let ?T = "[[''sentiment_score'' \<mapsto> PNum (3/5)], [''title'' \<mapsto> PStr ''a''],
             [''sentiment_score'' \<mapsto> PNum (3/5)], [''sentiment_score'' \<mapsto> PNum (3/5)]] :: track list"
  let ?xs = "[3/5, 3/5, 3/5] :: real list"
  have h1: "as_floats (present_scores ?T) = Some ?xs"
    by (simp add: present_scores_def py_get_def dict_get_def)
  have h2: "2 \<le> length ?xs" by simp
  have h3: "np_percentile ?xs 75 - np_percentile ?xs 25 < 1 / 1000000"
    by (simp add: np_percentile_def)
  from normalize_degenerate [OF h1 h2 h3] obtain res where
    r: "normalize_sentiment_scores ?T = Inr res" and
    a: "\<forall>i<length ?T.
              (py_get (?T ! i) ''sentiment_score'' \<noteq> PNone \<longrightarrow>
                 py_get (res ! i) ''sentiment_score'' = PNum (1/2) \<and>
                 py_get (res ! i) ''normalized_sentiment'' = PNum (1/2) \<and>
                 py_get (res ! i) ''raw_sentiment'' = py_get (?T ! i) ''sentiment_score'') \<and>
              (py_get (?T ! i) ''sentiment_score'' = PNone \<longrightarrow> res ! i = ?T ! i)"
    by blast
  have s0: "py_get (?T ! 0) ''sentiment_score'' = PNum (3/5)"
    by (simp add: py_get_def dict_get_def)
  have s1: "py_get (?T ! 1) ''sentiment_score'' = PNone"
    by (simp add: py_get_def dict_get_def)
  have l0: "0 < length ?T" and l1: "1 < length ?T" by simp_all
  have a0: "py_get (res ! 0) ''sentiment_score'' = PNum (1/2)
            \<and> py_get (res ! 0) ''normalized_sentiment'' = PNum (1/2)
            \<and> py_get (res ! 0) ''raw_sentiment'' = PNum (3/5)"
    using a [THEN spec, of 0, THEN mp, OF l0, THEN conjunct1] s0 by simp
  have a1: "res ! 1 = [''title'' \<mapsto> PStr ''a'']"
    using a [THEN spec, of 1, THEN mp, OF l1, THEN conjunct2] s1 by simp
  show ?thesis
    using h1 h2 h3 r a0 a1 by blast
qed

section \<open>Worker pools: properties\<close>


lemma first_or_list: "artists_is_list t \<Longrightarrow> \<exists>a. first_or (dict_get t ''artists'' (PList [])) d = Inr a"
  by (cases "t ''artists''"; cases "the (t ''artists'')"; cases "case the (t ''artists'') of PList vs \<Rightarrow> vs | _ \<Rightarrow> []")
     (auto simp: artists_is_list_def dict_get_def)

lemma collect_catching_all:
  assumes "\<forall>i\<in>set order. fut i = Inr (i, g i)"
  shows "collect_catching fut order d = (\<lambda>k. if k \<in> set order then Some (g k) else d k)"
  using assms by (induction order arbitrary: d) (auto simp: fun_eq_iff)

lemma collect_raising_all:
  assumes "\<forall>i\<in>set order. fut i = Inr (i, g i)"
  shows "collect_raising fut order d = Inr (\<lambda>k. if k \<in> set order then Some (g k) else d k)"
  using assms by (induction order arbitrary: d) (auto simp: fun_eq_iff)

lemma in_input_order_all:
  assumes "\<forall>i\<in>set is. d i = Some (g i)"
  shows "in_input_order d is = Inr (map g is)"
  using assms by (induction "is") auto

lemma analyze_track_total:
  assumes "artists_is_list t"
  shows "\<exists>t'. analyze_track_with_index f e c i t = Inr (i, t')"
  using first_or_list [OF assms, of "PStr ''Unknown''"]
  by (auto simp: analyze_track_with_index_def Let_def split: option.splits prod.splits)

lemma fetch_lyrics_total:
  assumes "artists_is_list t"
  shows "\<exists>t'. fetch_lyrics_single g t = Inr t'"
  using first_or_list [OF assms, of "PStr []"]
  by (auto simp: fetch_lyrics_single_def Let_def split: genius_result.splits)


lemma audio_pool_result:
  assumes wf: "\<forall>t\<in>set tracks. artists_is_list t"
    and ord: "set order = {0..<length tracks}"
  shows "\<exists>res. add_audio_features_to_tracks f e c order tracks = Inr res
           \<and> length res = length tracks
           \<and> (\<forall>i<length tracks. analyze_track_with_index f e c i (tracks ! i) = Inr (i, res ! i))"
proof -
  let ?fut = "\<lambda>i. analyze_track_with_index f e c i (tracks ! i)"
  have "\<forall>i. \<exists>t'. i < length tracks \<longrightarrow> ?fut i = Inr (i, t')"
    using wf analyze_track_total by (metis nth_mem)
  then obtain g where g: "\<forall>i<length tracks. ?fut i = Inr (i, g i)"
    by metis
  have "\<forall>i\<in>set order. ?fut i = Inr (i, g i)"
    using g ord by simp
  from collect_catching_all [OF this]
  have d: "collect_catching ?fut order Map.empty = (\<lambda>k. if k \<in> set order then Some (g k) else None)"
    by simp
  have "in_input_order (collect_catching ?fut order Map.empty) [0..<length tracks]
          = Inr (map g [0..<length tracks])"
    by (rule in_input_order_all) (simp add: d ord)
  then have "add_audio_features_to_tracks f e c order tracks = Inr (map g [0..<length tracks])"
    by (cases "tracks = []") (simp_all add: add_audio_features_to_tracks_def)
  then show ?thesis
    using g by (intro exI [of _ "map g [0..<length tracks]"]) simp
qed

lemma lyrics_pool_result:
  assumes wf: "\<forall>t\<in>set tracks. artists_is_list t"
    and ord: "set order = {0..<length tracks}"
  shows "\<exists>res. fetch_lyrics_for_tracks g order tracks = Inr res
           \<and> length res = length tracks
           \<and> (\<forall>i<length tracks. fetch_lyrics_single g (tracks ! i) = Inr (res ! i))"
proof -
  let ?fut = "\<lambda>i. case fetch_lyrics_single g (tracks ! i) of
                     Inl e \<Rightarrow> Inl e | Inr t \<Rightarrow> Inr (i, t)"
  have "\<forall>i. \<exists>t'. i < length tracks \<longrightarrow> fetch_lyrics_single g (tracks ! i) = Inr t'"
    using wf fetch_lyrics_total by (metis nth_mem)
  then obtain h where h: "\<forall>i<length tracks. fetch_lyrics_single g (tracks ! i) = Inr (h i)"
    by metis
  have "\<forall>i\<in>set order. ?fut i = Inr (i, h i)"
    using h ord by simp
  from collect_raising_all [OF this]
  have d: "collect_raising ?fut order Map.empty
             = Inr (\<lambda>k. if k \<in> set order then Some (h k) else None)"
    by simp
  have "in_input_order (\<lambda>k. if k \<in> set order then Some (h k) else None) [0..<length tracks]
          = Inr (map h [0..<length tracks])"
    by (rule in_input_order_all) (simp add: ord)
  then have "fetch_lyrics_for_tracks g order tracks = Inr (map h [0..<length tracks])"
    by (simp add: fetch_lyrics_for_tracks_def d)
  then show ?thesis
    using h by (intro exI [of _ "map h [0..<length tracks]"]) simp
qed

lemma sentiment_pool_result:
  assumes ord: "set order = {0..<length tracks}"
  shows "add_sentiment_to_tracks p s c order tracks
           = Inr (map (analyze_sentiment_single p s c) tracks)"
proof -
  let ?g = "\<lambda>i. analyze_sentiment_single p s c (tracks ! i)"
  let ?fut = "\<lambda>i. Inr (i, ?g i) :: py_error + nat \<times> track"
  have "\<forall>i\<in>set order. ?fut i = Inr (i, ?g i)" by simp
  from collect_raising_all [OF this]
  have d: "collect_raising ?fut order Map.empty
             = Inr (\<lambda>k. if k \<in> set order then Some (?g k) else None)"
    by simp
  have "in_input_order (\<lambda>k. if k \<in> set order then Some (?g k) else None) [0..<length tracks]
          = Inr (map ?g [0..<length tracks])"
    by (rule in_input_order_all) (simp add: ord)
  moreover have "map ?g [0..<length tracks] = map (analyze_sentiment_single p s c) tracks"
    by (rule nth_equalityI) simp_all
  ultimately show ?thesis
    by (simp add: add_sentiment_to_tracks_def d)
qed

text \<open>
  C2. Whatever the order in which the futures complete, each of the three pools returns
  a list as long as its input whose element at position \<open>i\<close> is the result of the
  per-item transform on input item \<open>i\<close>. A track's \<^verbatim>\<open>artists\<close>, where present, is a list:
  a non-zero number there makes \<^verbatim>\<open>artists[0]\<close> raise inside the task.
\<close>

theorem worker_pools_index_stable:
  assumes "\<forall>t\<in>set tracks. artists_is_list t"
    and "set order = {0..<length tracks}"
  shows "(\<exists>res. add_audio_features_to_tracks f e c order tracks = Inr res
            \<and> length res = length tracks
            \<and> (\<forall>i<length tracks.
                  analyze_track_with_index f e c i (tracks ! i) = Inr (i, res ! i)))
       \<and> (\<exists>res. fetch_lyrics_for_tracks g order tracks = Inr res
            \<and> length res = length tracks
            \<and> (\<forall>i<length tracks. fetch_lyrics_single g (tracks ! i) = Inr (res ! i)))
       \<and> (\<exists>res. add_sentiment_to_tracks p s clf order tracks = Inr res
            \<and> length res = length tracks
            \<and> (\<forall>i<length tracks. res ! i = analyze_sentiment_single p s clf (tracks ! i)))"
proof (intro conjI)
  show "\<exists>res. add_audio_features_to_tracks f e c order tracks = Inr res
            \<and> length res = length tracks
            \<and> (\<forall>i<length tracks.
                  analyze_track_with_index f e c i (tracks ! i) = Inr (i, res ! i))"
    by (rule audio_pool_result [OF assms])
  show "\<exists>res. fetch_lyrics_for_tracks g order tracks = Inr res
            \<and> length res = length tracks
            \<and> (\<forall>i<length tracks. fetch_lyrics_single g (tracks ! i) = Inr (res ! i))"
    by (rule lyrics_pool_result [OF assms])
  show "\<exists>res. add_sentiment_to_tracks p s clf order tracks = Inr res
            \<and> length res = length tracks
            \<and> (\<forall>i<length tracks. res ! i = analyze_sentiment_single p s clf (tracks ! i))"
    using sentiment_pool_result [OF assms(2)] by simp
qed


theorem worker_pools_index_stable_witness:
  "artists_is_list [''title'' \<mapsto> PStr ''a'', ''artists'' \<mapsto> PList [PStr ''x'']]
   \<and> artists_is_list [''title'' \<mapsto> PStr ''b'']
   \<and> set [1, 0] = {0..<length [[''title'' \<mapsto> PStr ''a'', ''artists'' \<mapsto> PList [PStr ''x'']],
                                 [''title'' \<mapsto> PStr ''b'']]}
   \<and> (\<exists>res. add_audio_features_to_tracks (\<lambda>creds title artist. None) (\<lambda>url. Inr 120) None [1, 0]
                 [[''title'' \<mapsto> PStr ''a'', ''artists'' \<mapsto> PList [PStr ''x'']],
                  [''title'' \<mapsto> PStr ''b'']] = Inr res \<and> length res = 2)
   \<and> (\<exists>res. fetch_lyrics_for_tracks (\<lambda>title artist. No_Song) [1, 0]
                 [[''title'' \<mapsto> PStr ''a'', ''artists'' \<mapsto> PList [PStr ''x'']],
                  [''title'' \<mapsto> PStr ''b'']] = Inr res \<and> length res = 2)
   \<and> (\<exists>res. add_sentiment_to_tracks (\<lambda>x. x) (\<lambda>x. [x]) (\<lambda>x. Clf_Raises) [1, 0]
                 [[''title'' \<mapsto> PStr ''a'', ''artists'' \<mapsto> PList [PStr ''x'']],
                  [''title'' \<mapsto> PStr ''b'']] = Inr res \<and> length res = 2)"
proof -
  let ?t0 = "[''title'' \<mapsto> PStr ''a'', ''artists'' \<mapsto> PList [PStr ''x'']] :: track"
  let ?t1 = "[''title'' \<mapsto> PStr ''b''] :: track"
  have w0: "artists_is_list ?t0" and w1: "artists_is_list ?t1"
    by (simp_all add: artists_is_list_def)
  have wf: "\<forall>t\<in>set [?t0, ?t1]. artists_is_list t"
    using w0 w1 by simp
  have ord: "set [1, 0] = {0..<length [?t0, ?t1]}"
    by auto
  have two: "length [?t0, ?t1] = 2" by simp
  show ?thesis
    using w0 w1 ord
      worker_pools_index_stable [OF wf ord, of "\<lambda>creds title artist. None" "\<lambda>url. Inr 120" None
        "\<lambda>title artist. No_Song" "\<lambda>x. x" "\<lambda>x. [x]" "\<lambda>x. Clf_Raises"]
    unfolding two by blast
qed

lemma analyze_track_exactly_one:
  assumes "analyze_track_with_index f e c i t = Inr (j, t')"
  shows "(py_get t' ''tempo'' \<noteq> PNone) \<noteq> (py_get t' ''audio_features_error'' \<noteq> PNone)"
  using assms
  by (auto simp: analyze_track_with_index_def calculate_bpm_from_preview_url_def Let_def
        py_get_def dict_get_def
      split: sum.splits option.splits if_splits)

lemma analyze_sentiment_keys:
  assumes "analyze_sentiment p s c l = Inr r"
  shows "r ''sentiment_error'' = None"
  using assms
  by (auto simp: analyze_sentiment_def no_sentiment_def Let_def split: pyval.splits if_splits)

lemma analyze_sentiment_single_error_key:
  "analyze_sentiment_single p s c t ''sentiment_error'' = t ''sentiment_error''"
  by (auto simp: analyze_sentiment_single_def Let_def map_add_def
        dest: analyze_sentiment_keys split: sum.splits)

lemma tempo_pool_exactly_one:
  assumes "\<forall>t\<in>set tracks. artists_is_list t"
    and "set order = {0..<length tracks}"
  shows "\<exists>res. add_audio_features_to_tracks f e c order tracks = Inr res
           \<and> length res = length tracks
           \<and> (\<forall>i<length tracks.
                 (py_get (res ! i) ''tempo'' \<noteq> PNone)
                   \<noteq> (py_get (res ! i) ''audio_features_error'' \<noteq> PNone))"
proof -
  from audio_pool_result [OF assms, of f e c] obtain res where
    r: "add_audio_features_to_tracks f e c order tracks = Inr res"
       "length res = length tracks"
       "\<forall>i<length tracks. analyze_track_with_index f e c i (tracks ! i) = Inr (i, res ! i)"
    by blast
  have "\<forall>i<length tracks.
          (py_get (res ! i) ''tempo'' \<noteq> PNone) \<noteq> (py_get (res ! i) ''audio_features_error'' \<noteq> PNone)"
    using r(3) analyze_track_exactly_one by blast
  with r(1,2) show ?thesis by blast
qed

lemma sentiment_pool_keeps_error_key:
  assumes "set order = {0..<length tracks}"
  shows "\<exists>res. add_sentiment_to_tracks p s clf order tracks = Inr res
           \<and> length res = length tracks
           \<and> (\<forall>i<length tracks. (res ! i) ''sentiment_error'' = (tracks ! i) ''sentiment_error'')"
proof -
  let ?res = "map (analyze_sentiment_single p s clf) tracks"
  have e: "add_sentiment_to_tracks p s clf order tracks = Inr ?res"
    by (rule sentiment_pool_result [OF assms])
  have k: "\<forall>i<length tracks. (?res ! i) ''sentiment_error'' = (tracks ! i) ''sentiment_error''"
    by (simp add: analyze_sentiment_single_error_key)
  have len: "length ?res = length tracks" by simp
  show ?thesis
    unfolding e
    apply (rule exI [of _ ?res])
    apply (intro conjI)
      apply (rule refl)
     apply (rule len)
    apply (rule k)
    done
qed

text \<open>
  C3. The tempo pool keeps the invariant (\<open>tempo_pool_exactly_one\<close>). The sentiment pool
  does not, on a track whose transform ran: the track has lyrics and the classifier
  raises on its one stanza, the exception is dropped, and the track leaves the pool with
  \<^verbatim>\<open>sentiment_score\<close> \<^verbatim>\<open>None\<close> and no \<^verbatim>\<open>sentiment_error\<close>. The same happens when the
  analysis itself raises (the lyrics are a number, which has no \<^verbatim>\<open>strip\<close>) and the
  \<^verbatim>\<open>except\<close> of \<^verbatim>\<open>analyze_sentiment_single\<close> catches it. The tempo pool, on the same kind
  of failure, records the error.
\<close>

theorem sentiment_failure_sets_neither:
  "truthy (dict_get [''track_id'' \<mapsto> PStr ''t1'', ''lyrics'' \<mapsto> PStr ''la la la'']
             ''lyrics'' (PStr []))
   \<and> add_sentiment_to_tracks (\<lambda>x. x) (\<lambda>x. [x]) (\<lambda>x. Clf_Raises) [0]
        [[''track_id'' \<mapsto> PStr ''t1'', ''lyrics'' \<mapsto> PStr ''la la la'']]
       = Inr [[''track_id'' \<mapsto> PStr ''t1'', ''lyrics'' \<mapsto> PStr ''la la la'',
               ''sentiment_score'' \<mapsto> PNone, ''sentiment_chunks'' \<mapsto> PNum 1,
               ''stanza_scores'' \<mapsto> PList []]]
   \<and> py_get [''track_id'' \<mapsto> PStr ''t1'', ''lyrics'' \<mapsto> PStr ''la la la'',
              ''sentiment_score'' \<mapsto> PNone, ''sentiment_chunks'' \<mapsto> PNum 1,
              ''stanza_scores'' \<mapsto> PList []] ''sentiment_score'' = PNone
   \<and> py_get [''track_id'' \<mapsto> PStr ''t1'', ''lyrics'' \<mapsto> PStr ''la la la'',
              ''sentiment_score'' \<mapsto> PNone, ''sentiment_chunks'' \<mapsto> PNum 1,
              ''stanza_scores'' \<mapsto> PList []] ''sentiment_error'' = PNone
   \<and> add_sentiment_to_tracks (\<lambda>x. x) (\<lambda>x. [x]) (\<lambda>x. Clf ''positive'' 1) [0]
        [[''track_id'' \<mapsto> PStr ''t2'', ''lyrics'' \<mapsto> PNum 1]]
       = Inr [[''track_id'' \<mapsto> PStr ''t2'', ''lyrics'' \<mapsto> PNum 1,
               ''sentiment_score'' \<mapsto> PNone, ''sentiment_chunks'' \<mapsto> PNum 0,
               ''stanza_scores'' \<mapsto> PList []]]
   \<and> add_audio_features_to_tracks (\<lambda>creds title artist. None) (\<lambda>url. Inl ''boom'') None [0]
        [[''track_id'' \<mapsto> PStr ''t1'', ''preview_url'' \<mapsto> PStr ''u'']]
       = Inr [[''track_id'' \<mapsto> PStr ''t1'', ''preview_url'' \<mapsto> PStr ''u'',
               ''tempo'' \<mapsto> PNone, ''audio_features_error'' \<mapsto> PStr ''Error: boom'']]"
proof (intro conjI)
  let ?t = "[''track_id'' \<mapsto> PStr ''t1'', ''lyrics'' \<mapsto> PStr ''la la la''] :: track"
  let ?r = "[''track_id'' \<mapsto> PStr ''t1'', ''lyrics'' \<mapsto> PStr ''la la la'',
             ''sentiment_score'' \<mapsto> PNone, ''sentiment_chunks'' \<mapsto> PNum 1,
             ''stanza_scores'' \<mapsto> PList []] :: track"
  show "truthy (dict_get ?t ''lyrics'' (PStr []))" by (simp add: dict_get_def)
  have strip: "py_strip ''la la la'' = ''la la la''"
    by (simp add: py_strip_def is_space_def)
  have "analyze_sentiment (\<lambda>x. x) (\<lambda>x. [x]) (\<lambda>x. Clf_Raises) (PStr ''la la la'')
          = Inr (no_sentiment 1)"
    by (simp add: analyze_sentiment_def strip)
  then have "analyze_sentiment_single (\<lambda>x. x) (\<lambda>x. [x]) (\<lambda>x. Clf_Raises) ?t = ?r"
    by (simp add: analyze_sentiment_single_def dict_get_def py_get_def no_sentiment_def)
  then show "add_sentiment_to_tracks (\<lambda>x. x) (\<lambda>x. [x]) (\<lambda>x. Clf_Raises) [0] [?t] = Inr [?r]"
    by (simp add: add_sentiment_to_tracks_def)
  show "py_get ?r ''sentiment_score'' = PNone" by (simp add: py_get_def dict_get_def)
  show "py_get ?r ''sentiment_error'' = PNone" by (simp add: py_get_def dict_get_def)
  let ?t2 = "[''track_id'' \<mapsto> PStr ''t2'', ''lyrics'' \<mapsto> PNum 1] :: track"
  have "analyze_sentiment (\<lambda>x. x) (\<lambda>x. [x]) (\<lambda>x. Clf ''positive'' 1) (PNum 1)
          = Inl AttributeError"
    by (simp add: analyze_sentiment_def)
  then have "analyze_sentiment_single (\<lambda>x. x) (\<lambda>x. [x]) (\<lambda>x. Clf ''positive'' 1) ?t2
          = ?t2(''sentiment_score'' \<mapsto> PNone, ''sentiment_chunks'' \<mapsto> PNum 0,
                ''stanza_scores'' \<mapsto> PList [])"
    by (simp add: analyze_sentiment_single_def dict_get_def py_get_def)
  then show "add_sentiment_to_tracks (\<lambda>x. x) (\<lambda>x. [x]) (\<lambda>x. Clf ''positive'' 1) [0] [?t2]
       = Inr [[''track_id'' \<mapsto> PStr ''t2'', ''lyrics'' \<mapsto> PNum 1,
               ''sentiment_score'' \<mapsto> PNone, ''sentiment_chunks'' \<mapsto> PNum 0,
               ''stanza_scores'' \<mapsto> PList []]]"
    by (simp add: add_sentiment_to_tracks_def)
  show "add_audio_features_to_tracks (\<lambda>creds title artist. None) (\<lambda>url. Inl ''boom'') None [0]
        [[''track_id'' \<mapsto> PStr ''t1'', ''preview_url'' \<mapsto> PStr ''u'']]
       = Inr [[''track_id'' \<mapsto> PStr ''t1'', ''preview_url'' \<mapsto> PStr ''u'',
               ''tempo'' \<mapsto> PNone, ''audio_features_error'' \<mapsto> PStr ''Error: boom'']]"
    by (simp add: add_audio_features_to_tracks_def analyze_track_with_index_def
          calculate_bpm_from_preview_url_def py_get_def dict_get_def)
qed

text \<open>
  The progress stream reads both fields of a track: for the track that left the
  sentiment pool with neither set it has nothing to report.
\<close>

lemma failed_sentiment_not_reported:
  "scan_track [''track_id'' \<mapsto> PStr ''t1'', ''lyrics'' \<mapsto> PStr ''la la la'',
               ''sentiment_score'' \<mapsto> PNone, ''sentiment_chunks'' \<mapsto> PNum 1,
               ''stanza_scores'' \<mapsto> PList []] {} {} = Inr ([], {}, {})"
  by (simp add: scan_track_def py_get_def dict_get_def)

section \<open>Per-item failures and repeated enrichment\<close>


lemma analyze_track_own_url_failure:
  assumes "first_or (dict_get t ''artists'' (PList [])) (PStr ''Unknown'') = Inr artist"
    and "truthy (py_get t ''preview_url'')"
    and "estimate (py_get t ''preview_url'') = Inl msg"
  shows "analyze_track_with_index f estimate c i t
           = Inr (i, t(''tempo'' \<mapsto> PNone,
                       ''audio_features_error'' \<mapsto> PStr (''Error: '' @ take 50 msg)))"
  using assms
  by (cases c)
     (simp_all add: analyze_track_with_index_def calculate_bpm_from_preview_url_def Let_def)

lemma analyze_track_finder_url_failure:
  assumes "first_or (dict_get t ''artists'' (PList [])) (PStr ''Unknown'') = Inr artist"
    and "\<not> truthy (py_get t ''preview_url'')"
    and "get_preview_url_with_finder f (dict_get t ''title'' (PStr ''Unknown'')) artist creds = url"
    and "truthy url"
    and "estimate url = Inl msg"
  shows "analyze_track_with_index f estimate (Some creds) i t
           = Inr (i, t(''tempo'' \<mapsto> PNone,
                       ''audio_features_error'' \<mapsto> PStr (''Error: '' @ take 50 msg)))"
  using assms
  by (simp add: analyze_track_with_index_def calculate_bpm_from_preview_url_def Let_def)

lemma analyze_track_returns:
  assumes "first_or (dict_get t ''artists'' (PList [])) (PStr ''Unknown'') = Inr a"
  shows "\<exists>t'. analyze_track_with_index f e c i t = Inr (i, t')"
  using assms
  by (auto simp: analyze_track_with_index_def Let_def split: option.splits prod.splits)

lemma analyze_track_returned:
  assumes "analyze_track_with_index f e c i t = Inr (k, t')"
  shows "k = i \<and> (\<exists>a. first_or (dict_get t ''artists'' (PList [])) (PStr ''Unknown'') = Inr a)"
  using assms
  by (auto simp: analyze_track_with_index_def Let_def
      split: sum.splits option.splits prod.splits if_splits)

lemma collect_catching_Some:
  assumes "collect_catching fut order d k = Some t"
  shows "d k \<noteq> None \<or> (\<exists>i\<in>set order. \<exists>t'. fut i = Inr (k, t'))"
  using assms
proof (induction order arbitrary: d)
  case Nil
  then show ?case by simp
next
  case (Cons i order)
  show ?case
  proof (cases "fut i")
    case (Inl e)
    with Cons.prems have "collect_catching fut order d k = Some t" by simp
    from Cons.IH [OF this] show ?thesis by auto
  next
    case (Inr p)
    obtain j u where p: "p = (j, u)" by (cases p)
    with Inr Cons.prems have "collect_catching fut order (d(j \<mapsto> u)) k = Some t" by simp
    from Cons.IH [OF this] Inr p show ?thesis by (auto split: if_splits)
  qed
qed

lemma in_input_order_Inr:
  assumes "in_input_order d is = Inr ts"
  shows "\<forall>i\<in>set is. d i \<noteq> None"
  using assms
  by (induction "is" arbitrary: ts) (auto split: option.splits sum.splits)

lemma audio_pool_returns:
  assumes wf: "\<forall>j<length tracks.
                 \<exists>a. first_or (dict_get (tracks ! j) ''artists'' (PList [])) (PStr ''Unknown'') = Inr a"
    and ord: "set order = {0..<length tracks}"
  shows "\<exists>res. add_audio_features_to_tracks f e c order tracks = Inr res
           \<and> length res = length tracks
           \<and> (\<forall>j<length tracks. analyze_track_with_index f e c j (tracks ! j) = Inr (j, res ! j))"
proof -
  let ?fut = "\<lambda>i. analyze_track_with_index f e c i (tracks ! i)"
  have "\<forall>i. \<exists>t'. i < length tracks \<longrightarrow> ?fut i = Inr (i, t')"
    using wf analyze_track_returns by blast
  then obtain g where g: "\<forall>i<length tracks. ?fut i = Inr (i, g i)"
    by metis
  have "\<forall>i\<in>set order. ?fut i = Inr (i, g i)"
    using g ord by simp
  from collect_catching_all [OF this]
  have d: "collect_catching ?fut order Map.empty = (\<lambda>k. if k \<in> set order then Some (g k) else None)"
    by simp
  have "in_input_order (collect_catching ?fut order Map.empty) [0..<length tracks]
          = Inr (map g [0..<length tracks])"
    by (rule in_input_order_all) (simp add: d ord)
  then have "add_audio_features_to_tracks f e c order tracks = Inr (map g [0..<length tracks])"
    by (cases "tracks = []") (simp_all add: add_audio_features_to_tracks_def)
  then show ?thesis
    using g by (intro exI [of _ "map g [0..<length tracks]"]) simp
qed

lemma audio_pool_returned:
  assumes "add_audio_features_to_tracks f e c order tracks = Inr res"
    and "j < length tracks"
  shows "\<exists>a. first_or (dict_get (tracks ! j) ''artists'' (PList [])) (PStr ''Unknown'') = Inr a"
proof -
  let ?fut = "\<lambda>i. analyze_track_with_index f e c i (tracks ! i)"
  from assms(2) have ne: "tracks \<noteq> []" by auto
  with assms(1) have
    "in_input_order (collect_catching ?fut order Map.empty) [0..<length tracks] = Inr res"
    by (simp add: add_audio_features_to_tracks_def)
  from in_input_order_Inr [OF this] assms(2)
  have "collect_catching ?fut order Map.empty j \<noteq> None" by simp
  then obtain t where "collect_catching ?fut order Map.empty j = Some t" by blast
  from collect_catching_Some [OF this]
  obtain i t' where "?fut i = Inr (j, t')" by auto
  from analyze_track_returned [OF this] show ?thesis by auto
qed

text \<open>
  C9, as the code has it. When the estimation raises on the preview URL that the task
  uses (the track's own, or the one the finder supplied), the exception is caught in
  \<^verbatim>\<open>calculate_bpm_from_preview_url\<close> and the task returns the track with \<^verbatim>\<open>tempo\<close>
  \<^verbatim>\<open>None\<close> and, as \<^verbatim>\<open>audio_features_error\<close>, the text \<^verbatim>\<open>Error: \<close> followed by the first
  50 characters of the exception's text, at most 57 characters in all. Whether the pool
  returns does not depend on the estimator: it returns exactly when every task gets as
  far as the estimation, and then every item is the result of its own transform.
\<close>

theorem tempo_failure_captured:
  "(first_or (dict_get t ''artists'' (PList [])) (PStr ''Unknown'') = Inr artist
      \<and> truthy (py_get t ''preview_url'')
      \<and> estimate (py_get t ''preview_url'') = Inl msg \<longrightarrow>
      analyze_track_with_index f estimate c i t
        = Inr (i, t(''tempo'' \<mapsto> PNone,
                    ''audio_features_error'' \<mapsto> PStr (''Error: '' @ take 50 msg))))
   \<and> (first_or (dict_get t ''artists'' (PList [])) (PStr ''Unknown'') = Inr artist
        \<and> \<not> truthy (py_get t ''preview_url'')
        \<and> get_preview_url_with_finder f (dict_get t ''title'' (PStr ''Unknown'')) artist creds = url
        \<and> truthy url
        \<and> estimate url = Inl msg \<longrightarrow>
        analyze_track_with_index f estimate (Some creds) i t
          = Inr (i, t(''tempo'' \<mapsto> PNone,
                      ''audio_features_error'' \<mapsto> PStr (''Error: '' @ take 50 msg))))
   \<and> (truthy url \<and> estimate url = Inl msg \<longrightarrow>
        calculate_bpm_from_preview_url estimate url = (None, PStr (''Error: '' @ take 50 msg))
        \<and> length (''Error: '' @ take 50 msg) \<le> 57)
   \<and> (set order = {0..<length tracks} \<longrightarrow>
        (\<exists>res. add_audio_features_to_tracks f estimate c order tracks = Inr res)
          = (\<forall>j<length tracks.
               \<exists>a. first_or (dict_get (tracks ! j) ''artists'' (PList [])) (PStr ''Unknown'')
                      = Inr a))
   \<and> (set order = {0..<length tracks}
        \<and> (\<forall>j<length tracks.
              \<exists>a. first_or (dict_get (tracks ! j) ''artists'' (PList [])) (PStr ''Unknown'')
                     = Inr a) \<longrightarrow>
        (\<exists>res. add_audio_features_to_tracks f estimate c order tracks = Inr res
           \<and> length res = length tracks
           \<and> (\<forall>j<length tracks.
                 analyze_track_with_index f estimate c j (tracks ! j) = Inr (j, res ! j))))"
proof (intro conjI impI)
  assume "first_or (dict_get t ''artists'' (PList [])) (PStr ''Unknown'') = Inr artist
      \<and> truthy (py_get t ''preview_url'')
      \<and> estimate (py_get t ''preview_url'') = Inl msg"
  then show "analyze_track_with_index f estimate c i t
        = Inr (i, t(''tempo'' \<mapsto> PNone,
                    ''audio_features_error'' \<mapsto> PStr (''Error: '' @ take 50 msg)))"
    using analyze_track_own_url_failure [of t artist estimate msg f c i] by blast
next
  assume "first_or (dict_get t ''artists'' (PList [])) (PStr ''Unknown'') = Inr artist
        \<and> \<not> truthy (py_get t ''preview_url'')
        \<and> get_preview_url_with_finder f (dict_get t ''title'' (PStr ''Unknown'')) artist creds = url
        \<and> truthy url
        \<and> estimate url = Inl msg"
  then show "analyze_track_with_index f estimate (Some creds) i t
          = Inr (i, t(''tempo'' \<mapsto> PNone,
                      ''audio_features_error'' \<mapsto> PStr (''Error: '' @ take 50 msg)))"
    using analyze_track_finder_url_failure [of t artist f creds url estimate msg i] by blast
next
  assume "truthy url \<and> estimate url = Inl msg"
  then show "calculate_bpm_from_preview_url estimate url
               = (None, PStr (''Error: '' @ take 50 msg))"
    by (simp add: calculate_bpm_from_preview_url_def)
next
  show "length (''Error: '' @ take 50 msg) \<le> 57" by simp
next
  assume ord: "set order = {0..<length tracks}"
  show "(\<exists>res. add_audio_features_to_tracks f estimate c order tracks = Inr res)
          = (\<forall>j<length tracks.
               \<exists>a. first_or (dict_get (tracks ! j) ''artists'' (PList [])) (PStr ''Unknown'')
                      = Inr a)"
  proof
    assume "\<exists>res. add_audio_features_to_tracks f estimate c order tracks = Inr res"
    then obtain res where "add_audio_features_to_tracks f estimate c order tracks = Inr res" ..
    from audio_pool_returned [OF this]
    show "\<forall>j<length tracks.
               \<exists>a. first_or (dict_get (tracks ! j) ''artists'' (PList [])) (PStr ''Unknown'')
                      = Inr a"
      by blast
  next
    assume "\<forall>j<length tracks.
               \<exists>a. first_or (dict_get (tracks ! j) ''artists'' (PList [])) (PStr ''Unknown'')
                      = Inr a"
    from audio_pool_returns [OF this ord, of f estimate c]
    show "\<exists>res. add_audio_features_to_tracks f estimate c order tracks = Inr res" by blast
  qed
next
  assume "set order = {0..<length tracks}
        \<and> (\<forall>j<length tracks.
              \<exists>a. first_or (dict_get (tracks ! j) ''artists'' (PList [])) (PStr ''Unknown'')
                     = Inr a)"
  then show "\<exists>res. add_audio_features_to_tracks f estimate c order tracks = Inr res
           \<and> length res = length tracks
           \<and> (\<forall>j<length tracks.
                 analyze_track_with_index f estimate c j (tracks ! j) = Inr (j, res ! j))"
    using audio_pool_returns [of tracks order f estimate c] by blast
qed

text \<open>
  C9 as stated fails: with an exception text of 60 characters the error field is 57
  characters long, not at most 50.
\<close>

theorem tempo_error_longer_than_50_counterexample:
  "\<exists>t'. analyze_track_with_index (\<lambda>creds title artist. None)
            (\<lambda>url. Inl (replicate 60 (CHR ''x''))) None 0
            [''track_id'' \<mapsto> PStr ''t1'', ''preview_url'' \<mapsto> PStr ''u''] = Inr (0, t')
        \<and> (\<exists>m. py_get t' ''audio_features_error'' = PStr m \<and> length m = 57 \<and> \<not> length m \<le> 50)"
  by (simp add: analyze_track_with_index_def calculate_bpm_from_preview_url_def
        py_get_def dict_get_def)

theorem tempo_failure_captured_witness:
  "first_or (dict_get ([''title'' \<mapsto> PStr ''a'', ''artists'' \<mapsto> PList [PStr ''x''], ''preview_url'' \<mapsto> PStr ''u'']) ''artists'' (PList [])) (PStr ''Unknown'') = Inr (PStr ''x'')
   \<and> truthy (py_get ([''title'' \<mapsto> PStr ''a'', ''artists'' \<mapsto> PList [PStr ''x''], ''preview_url'' \<mapsto> PStr ''u'']) ''preview_url'')
   \<and> (\<lambda>url. if url = PStr ''w'' then Inr (120::real) else if url = PStr ''u'' then Inl ''timed out'' else Inl ''refused'')
        (py_get ([''title'' \<mapsto> PStr ''a'', ''artists'' \<mapsto> PList [PStr ''x''], ''preview_url'' \<mapsto> PStr ''u'']) ''preview_url'') = Inl ''timed out''
   \<and> analyze_track_with_index (\<lambda>creds title artist. if title = PStr ''b'' then Some (PStr ''v'') else None)
        (\<lambda>url. if url = PStr ''w'' then Inr (120::real) else if url = PStr ''u'' then Inl ''timed out'' else Inl ''refused'')
        (Some (''id'', ''secret'')) 0
        ([''title'' \<mapsto> PStr ''a'', ''artists'' \<mapsto> PList [PStr ''x''], ''preview_url'' \<mapsto> PStr ''u''])
       = Inr (0, ([''title'' \<mapsto> PStr ''a'', ''artists'' \<mapsto> PList [PStr ''x''], ''preview_url'' \<mapsto> PStr ''u''])(''tempo'' \<mapsto> PNone, ''audio_features_error'' \<mapsto> PStr ''Error: timed out''))
   \<and> first_or (dict_get ([''title'' \<mapsto> PStr ''b'', ''artists'' \<mapsto> PList [PStr ''y'']]) ''artists'' (PList [])) (PStr ''Unknown'') = Inr (PStr ''y'')
   \<and> \<not> truthy (py_get ([''title'' \<mapsto> PStr ''b'', ''artists'' \<mapsto> PList [PStr ''y'']]) ''preview_url'')
   \<and> get_preview_url_with_finder (\<lambda>creds title artist. if title = PStr ''b'' then Some (PStr ''v'') else None)
        (dict_get ([''title'' \<mapsto> PStr ''b'', ''artists'' \<mapsto> PList [PStr ''y'']]) ''title'' (PStr ''Unknown'')) (PStr ''y'') (''id'', ''secret'') = PStr ''v''
   \<and> truthy (PStr ''v'')
   \<and> (\<lambda>url. if url = PStr ''w'' then Inr (120::real) else if url = PStr ''u'' then Inl ''timed out'' else Inl ''refused'') (PStr ''v'') = Inl ''refused''
   \<and> analyze_track_with_index (\<lambda>creds title artist. if title = PStr ''b'' then Some (PStr ''v'') else None)
        (\<lambda>url. if url = PStr ''w'' then Inr (120::real) else if url = PStr ''u'' then Inl ''timed out'' else Inl ''refused'')
        (Some (''id'', ''secret'')) 1
        ([''title'' \<mapsto> PStr ''b'', ''artists'' \<mapsto> PList [PStr ''y'']])
       = Inr (1, ([''title'' \<mapsto> PStr ''b'', ''artists'' \<mapsto> PList [PStr ''y'']])(''tempo'' \<mapsto> PNone, ''audio_features_error'' \<mapsto> PStr ''Error: refused''))
   \<and> calculate_bpm_from_preview_url
        (\<lambda>url. if url = PStr ''w'' then Inr (120::real) else if url = PStr ''u'' then Inl ''timed out'' else Inl ''refused'') (PStr ''v'') = (None, PStr ''Error: refused'')
   \<and> set [2, 0, 1]
       = {0..<length
       [[''title'' \<mapsto> PStr ''a'', ''artists'' \<mapsto> PList [PStr ''x''], ''preview_url'' \<mapsto> PStr ''u''],
        [''title'' \<mapsto> PStr ''b'', ''artists'' \<mapsto> PList [PStr ''y'']],
        [''title'' \<mapsto> PStr ''c'', ''preview_url'' \<mapsto> PStr ''w'']]}
   \<and> (\<exists>res. add_audio_features_to_tracks (\<lambda>creds title artist. if title = PStr ''b'' then Some (PStr ''v'') else None)
        (\<lambda>url. if url = PStr ''w'' then Inr (120::real) else if url = PStr ''u'' then Inl ''timed out'' else Inl ''refused'')
        (Some (''id'', ''secret'')) [2, 0, 1]
       [[''title'' \<mapsto> PStr ''a'', ''artists'' \<mapsto> PList [PStr ''x''], ''preview_url'' \<mapsto> PStr ''u''],
        [''title'' \<mapsto> PStr ''b'', ''artists'' \<mapsto> PList [PStr ''y'']],
        [''title'' \<mapsto> PStr ''c'', ''preview_url'' \<mapsto> PStr ''w'']] = Inr res
       \<and> length res = 3
       \<and> res ! 0 = ([''title'' \<mapsto> PStr ''a'', ''artists'' \<mapsto> PList [PStr ''x''], ''preview_url'' \<mapsto> PStr ''u''])(''tempo'' \<mapsto> PNone, ''audio_features_error'' \<mapsto> PStr ''Error: timed out'')
       \<and> res ! 1 = ([''title'' \<mapsto> PStr ''b'', ''artists'' \<mapsto> PList [PStr ''y'']])(''tempo'' \<mapsto> PNone, ''audio_features_error'' \<mapsto> PStr ''Error: refused'')
       \<and> py_get (res ! 2) ''tempo'' = PNum 120)"
proof -
  let ?t0 = "[''title'' \<mapsto> PStr ''a'', ''artists'' \<mapsto> PList [PStr ''x''], ''preview_url'' \<mapsto> PStr ''u''] :: track"
  let ?t1 = "[''title'' \<mapsto> PStr ''b'', ''artists'' \<mapsto> PList [PStr ''y'']] :: track"
  let ?t2 = "[''title'' \<mapsto> PStr ''c'', ''preview_url'' \<mapsto> PStr ''w''] :: track"
  let ?f = "(\<lambda>creds title artist. if title = PStr ''b'' then Some (PStr ''v'') else None) :: finder"
  let ?e = "(\<lambda>url. if url = PStr ''w'' then Inr (120::real) else if url = PStr ''u'' then Inl ''timed out'' else Inl ''refused'') :: estimator"
  let ?c = "(''id'', ''secret'') :: string \<times> string"
  let ?r0 = "?t0(''tempo'' \<mapsto> PNone, ''audio_features_error'' \<mapsto> PStr ''Error: timed out'')"
  let ?r1 = "?t1(''tempo'' \<mapsto> PNone, ''audio_features_error'' \<mapsto> PStr ''Error: refused'')"
  have a0: "first_or (dict_get ?t0 ''artists'' (PList [])) (PStr ''Unknown'') = Inr (PStr ''x'')"
    by (simp add: dict_get_def)
  have p0: "truthy (py_get ?t0 ''preview_url'')" by (simp add: py_get_def dict_get_def)
  have e0: "?e (py_get ?t0 ''preview_url'') = Inl ''timed out''"
    by (simp add: py_get_def dict_get_def)
  have a1: "first_or (dict_get ?t1 ''artists'' (PList [])) (PStr ''Unknown'') = Inr (PStr ''y'')"
    by (simp add: dict_get_def)
  have p1: "\<not> truthy (py_get ?t1 ''preview_url'')" by (simp add: py_get_def dict_get_def)
  have u1: "get_preview_url_with_finder ?f (dict_get ?t1 ''title'' (PStr ''Unknown'')) (PStr ''y'') ?c
              = PStr ''v''"
    by (simp add: get_preview_url_with_finder_def dict_get_def)
  have v1: "truthy (PStr ''v'')" by simp
  have e1: "?e (PStr ''v'') = Inl ''refused''" by simp
  have a2: "first_or (dict_get ?t2 ''artists'' (PList [])) (PStr ''Unknown'') = Inr (PStr ''Unknown'')"
    by (simp add: dict_get_def)
  have ord: "set [2, 0, 1] = {0..<length [?t0, ?t1, ?t2]}" by auto
  have wf: "\<forall>j<length [?t0, ?t1, ?t2].
              \<exists>a. first_or (dict_get ([?t0, ?t1, ?t2] ! j) ''artists'' (PList [])) (PStr ''Unknown'')
                     = Inr a"
  proof (intro allI impI)
    fix j assume "j < length [?t0, ?t1, ?t2]"
    then have "j = 0 \<or> j = 1 \<or> j = 2" by auto
    then show "\<exists>a. first_or (dict_get ([?t0, ?t1, ?t2] ! j) ''artists'' (PList [])) (PStr ''Unknown'')
                     = Inr a"
      using a0 a1 a2 by auto
  qed
  note T0 = tempo_failure_captured [where t = ?t0 and artist = "PStr ''x''" and estimate = ?e
              and msg = "''timed out''" and f = ?f and c = "Some ?c" and i = 0]
  have c0: "analyze_track_with_index ?f ?e (Some ?c) 0 ?t0 = Inr (0, ?r0)"
    using T0 [THEN conjunct1, THEN mp, OF conjI [OF a0 conjI [OF p0 e0]]] by simp
  note T1 = tempo_failure_captured [where t = ?t1 and artist = "PStr ''y''" and estimate = ?e
              and msg = "''refused''" and f = ?f and creds = ?c and url = "PStr ''v''" and i = 1
              and c = "Some ?c" and order = "[2, 0, 1]" and tracks = "[?t0, ?t1, ?t2]"]
  have c1: "analyze_track_with_index ?f ?e (Some ?c) 1 ?t1 = Inr (1, ?r1)"
    using T1 [THEN conjunct2, THEN conjunct1, THEN mp,
              OF conjI [OF a1 conjI [OF p1 conjI [OF u1 conjI [OF v1 e1]]]]] by simp
  have b1: "calculate_bpm_from_preview_url ?e (PStr ''v'') = (None, PStr ''Error: refused'')"
    using T1 [THEN conjunct2, THEN conjunct2, THEN conjunct1, THEN mp, OF conjI [OF v1 e1]]
    by simp
  from T1 [THEN conjunct2, THEN conjunct2, THEN conjunct2, THEN conjunct2, THEN mp,
           OF conjI [OF ord wf]]
  obtain res where
    r: "add_audio_features_to_tracks ?f ?e (Some ?c) [2, 0, 1] [?t0, ?t1, ?t2] = Inr res"
       "length res = length [?t0, ?t1, ?t2]"
       "\<forall>j<length [?t0, ?t1, ?t2].
           analyze_track_with_index ?f ?e (Some ?c) j ([?t0, ?t1, ?t2] ! j) = Inr (j, res ! j)"
    by blast
  have l0: "0 < length [?t0, ?t1, ?t2]" and l1: "1 < length [?t0, ?t1, ?t2]"
    and l2: "2 < length [?t0, ?t1, ?t2]" by simp_all
  have "analyze_track_with_index ?f ?e (Some ?c) 0 ([?t0, ?t1, ?t2] ! 0) = Inr (0, res ! 0)"
    using r(3) [THEN spec, of 0, THEN mp, OF l0] .
  with c0 have r0: "res ! 0 = ?r0" by simp
  have "analyze_track_with_index ?f ?e (Some ?c) 1 ([?t0, ?t1, ?t2] ! 1) = Inr (1, res ! 1)"
    using r(3) [THEN spec, of 1, THEN mp, OF l1] .
  with c1 have r1: "res ! 1 = ?r1" by simp
  have "analyze_track_with_index ?f ?e (Some ?c) 2 ([?t0, ?t1, ?t2] ! 2) = Inr (2, res ! 2)"
    using r(3) [THEN spec, of 2, THEN mp, OF l2] .
  moreover have "analyze_track_with_index ?f ?e (Some ?c) 2 ([?t0, ?t1, ?t2] ! 2)
      = Inr (2, ?t2(''tempo'' \<mapsto> PNum 120, ''audio_features_error'' \<mapsto> PNone))"
    by (simp add: analyze_track_with_index_def calculate_bpm_from_preview_url_def
          py_get_def dict_get_def)
  ultimately have "res ! 2 = ?t2(''tempo'' \<mapsto> PNum 120, ''audio_features_error'' \<mapsto> PNone)"
    by simp
  then have r2: "py_get (res ! 2) ''tempo'' = PNum 120"
    by (simp add: py_get_def dict_get_def)
  have len: "length res = 3" using r(2) by simp
  have ex: "\<exists>res. add_audio_features_to_tracks ?f ?e (Some ?c) [2, 0, 1] [?t0, ?t1, ?t2] = Inr res
              \<and> length res = 3 \<and> res ! 0 = ?r0 \<and> res ! 1 = ?r1
              \<and> py_get (res ! 2) ''tempo'' = PNum 120"
    by (intro exI [of _ res] conjI) (rule r(1), rule len, rule r0, rule r1, rule r2)
  show ?thesis
    by (intro conjI)
       (rule a0, rule p0, rule e0, rule c0, rule a1, rule p1, rule u1, rule v1, rule e1,
        rule c1, rule b1, rule ord, rule ex)
qed

text \<open>
  The task of a track whose \<^verbatim>\<open>artists\<close> is a non-zero number raises before the
  estimation; the tempo pool prints the exception, and the final list comprehension then
  raises \<^verbatim>\<open>KeyError\<close> for the missing index.
\<close>

lemma audio_pool_missing_result:
  "add_audio_features_to_tracks (\<lambda>creds title artist. None) (\<lambda>url. Inr 120) None [0, 1]
     [[''track_id'' \<mapsto> PStr ''t1'', ''preview_url'' \<mapsto> PStr ''u''],
      [''track_id'' \<mapsto> PStr ''t2'', ''artists'' \<mapsto> PNum 1]]
   = Inl KeyError"
  by (simp add: add_audio_features_to_tracks_def analyze_track_with_index_def
        calculate_bpm_from_preview_url_def py_get_def dict_get_def)


lemma fetch_lyrics_skip:
  assumes "artists_is_list t" and "truthy (py_get t ''lyrics'')"
  shows "fetch_lyrics_single g t = Inr t"
proof -
  obtain a where "first_or (dict_get t ''artists'' (PList [])) (PStr []) = Inr a"
    using first_or_list [OF assms(1)] by blast
  moreover have "t ''lyrics'' \<noteq> None"
    using assms(2) by (auto simp: py_get_def dict_get_def split: option.splits)
  ultimately show ?thesis
    using assms(2) by (simp add: fetch_lyrics_single_def)
qed

lemma analyze_sentiment_skip:
  assumes "py_get t ''sentiment_score'' \<noteq> PNone"
  shows "analyze_sentiment_single p s c t = t"
proof -
  have "t ''sentiment_score'' \<noteq> None"
    using assms by (auto simp: py_get_def dict_get_def split: option.splits)
  then show ?thesis
    using assms by (simp add: analyze_sentiment_single_def)
qed

lemma analyze_sentiment_dom:
  assumes "analyze_sentiment p s c l = Inr r"
  shows "dom r = {''sentiment_score'', ''sentiment_chunks'', ''stanza_scores''}"
  using assms
  by (auto simp: analyze_sentiment_def no_sentiment_def Let_def split: pyval.splits if_splits)

lemma analyze_sentiment_single_unskipped:
  assumes "py_get t ''sentiment_score'' = PNone"
  shows "analyze_sentiment_single p s c t =
           (if \<not> truthy (dict_get t ''lyrics'' (PStr []))
            then t(''sentiment_score'' \<mapsto> PNone, ''sentiment_chunks'' \<mapsto> PNum 0,
                   ''stanza_scores'' \<mapsto> PList [])
            else (case analyze_sentiment p s c (dict_get t ''lyrics'' (PStr [])) of
                    Inr sentiment_result \<Rightarrow> t ++ sentiment_result
                  | Inl e \<Rightarrow> t(''sentiment_score'' \<mapsto> PNone, ''sentiment_chunks'' \<mapsto> PNum 0,
                               ''stanza_scores'' \<mapsto> PList [])))"
  using assms by (simp add: analyze_sentiment_single_def Let_def)

lemma analyze_sentiment_single_idem:
  "analyze_sentiment_single p s c (analyze_sentiment_single p s c t)
     = analyze_sentiment_single p s c t"
proof (cases "py_get (analyze_sentiment_single p s c t) ''sentiment_score'' \<noteq> PNone")
  case True
  then show ?thesis by (rule analyze_sentiment_skip)
next
  case after: False
  let ?none = "t(''sentiment_score'' \<mapsto> PNone, ''sentiment_chunks'' \<mapsto> PNum 0,
                 ''stanza_scores'' \<mapsto> PList [])"
  let ?l = "dict_get t ''lyrics'' (PStr [])"
  have before: "py_get t ''sentiment_score'' = PNone"
    using after analyze_sentiment_skip [of t p s c] by metis
  note u = analyze_sentiment_single_unskipped [OF before, of p s c]
  have none_l: "dict_get ?none ''lyrics'' (PStr []) = ?l"
    by (simp add: dict_get_def)
  have none_s: "py_get ?none ''sentiment_score'' = PNone"
    by (simp add: py_get_def dict_get_def)
  note un = analyze_sentiment_single_unskipped [OF none_s, of p s c]
  show ?thesis
  proof (cases "truthy ?l")
    case False
    then have "analyze_sentiment_single p s c t = ?none" using u by simp
    moreover have "analyze_sentiment_single p s c ?none = ?none"
      using False un unfolding none_l by simp
    ultimately show ?thesis by simp
  next
    case lyr: True
    show ?thesis
    proof (cases "analyze_sentiment p s c ?l")
      case (Inl e)
      then have "analyze_sentiment_single p s c t = ?none" using u lyr by simp
      moreover have "analyze_sentiment_single p s c ?none = ?none"
        using lyr Inl un unfolding none_l by simp
      ultimately show ?thesis by simp
    next
      case (Inr r)
      then have eq: "analyze_sentiment_single p s c t = t ++ r" using u lyr by simp
      have "dom r = {''sentiment_score'', ''sentiment_chunks'', ''stanza_scores''}"
        by (rule analyze_sentiment_dom [OF Inr])
      then have "''lyrics'' \<notin> dom r" by simp
      then have "r ''lyrics'' = None" by blast
      then have l: "dict_get (t ++ r) ''lyrics'' (PStr []) = ?l"
        by (simp add: dict_get_def map_add_def)
      have sc: "py_get (t ++ r) ''sentiment_score'' = PNone"
        using after eq by simp
      have "analyze_sentiment_single p s c (t ++ r) = (t ++ r) ++ r"
        using analyze_sentiment_single_unskipped [OF sc, of p s c] lyr Inr
        unfolding l by simp
      moreover have "(t ++ r) ++ r = t ++ r"
        by (rule ext) (simp add: map_add_def split: option.splits)
      ultimately show ?thesis using eq by simp
    qed
  qed
qed


lemma fetch_lyrics_single_unfold:
  assumes "first_or (dict_get t ''artists'' (PList [])) (PStr []) = Inr a"
  shows "fetch_lyrics_single g t =
     Inr (if t ''lyrics'' \<noteq> None \<and> truthy (py_get t ''lyrics'') then t
          else (case g (dict_get t ''title'' (PStr [])) a of
                  Song song_lyrics url \<Rightarrow>
                    if song_lyrics \<noteq> []
                    then t(''lyrics'' \<mapsto> PStr (cleaned song_lyrics),
                           ''lyrics_source'' \<mapsto> PStr ''genius'', ''genius_url'' \<mapsto> url)
                    else t(''lyrics'' \<mapsto> PNone, ''lyrics_source'' \<mapsto> PNone)
                | _ \<Rightarrow> t(''lyrics'' \<mapsto> PNone, ''lyrics_source'' \<mapsto> PNone)))"
  using assms
  by (simp add: fetch_lyrics_single_def cleaned_def Let_def split: genius_result.splits)

lemma fetch_lyrics_single_idem:
  assumes "fetch_lyrics_single g t = Inr t'"
  shows "fetch_lyrics_single g t' = Inr t'"
proof -
  let ?ar = "dict_get t ''artists'' (PList [])"
  let ?ti = "dict_get t ''title'' (PStr [])"
  let ?none = "t(''lyrics'' \<mapsto> PNone, ''lyrics_source'' \<mapsto> PNone)"
  from assms obtain a where a: "first_or ?ar (PStr []) = Inr a"
    by (cases "first_or ?ar (PStr [])") (simp_all add: fetch_lyrics_single_def)
  note u = fetch_lyrics_single_unfold [OF a, of g]
  have none_a: "first_or (dict_get ?none ''artists'' (PList [])) (PStr []) = Inr a"
    using a by (simp add: dict_get_def)
  have none_t: "dict_get ?none ''title'' (PStr []) = ?ti"
    by (simp add: dict_get_def)
  have none_l: "\<not> truthy (py_get ?none ''lyrics'')"
    by (simp add: py_get_def dict_get_def)
  have none_none: "?none(''lyrics'' \<mapsto> PNone, ''lyrics_source'' \<mapsto> PNone) = ?none"
    by (rule ext) simp
  show ?thesis
  proof (cases "t ''lyrics'' \<noteq> None \<and> truthy (py_get t ''lyrics'')")
    case True
    with u assms have "t' = t" by simp
    with assms show ?thesis by simp
  next
    case nolyr: False
    note u = u [unfolded if_not_P [OF nolyr]]
    show ?thesis
    proof (cases "g ?ti a")
      case Search_Raises
      then have "t' = ?none" using u assms by simp
      moreover have "fetch_lyrics_single g ?none = Inr ?none"
        using fetch_lyrics_single_unfold [OF none_a, of g] none_l Search_Raises none_none
        unfolding none_t by simp
      ultimately show ?thesis by simp
    next
      case No_Song
      then have "t' = ?none" using u assms by simp
      moreover have "fetch_lyrics_single g ?none = Inr ?none"
        using fetch_lyrics_single_unfold [OF none_a, of g] none_l No_Song none_none
        unfolding none_t by simp
      ultimately show ?thesis by simp
    next
      case (Song l url)
      show ?thesis
      proof (cases "l = []")
        case True
        then have "t' = ?none" using u assms Song by simp
        moreover have "fetch_lyrics_single g ?none = Inr ?none"
          using fetch_lyrics_single_unfold [OF none_a, of g] none_l Song True none_none
          unfolding none_t by simp
        ultimately show ?thesis by simp
      next
        case False
        let ?found = "t(''lyrics'' \<mapsto> PStr (cleaned l),
                        ''lyrics_source'' \<mapsto> PStr ''genius'', ''genius_url'' \<mapsto> url)"
        have t': "t' = ?found" using u assms Song False by simp
        have found_a: "first_or (dict_get ?found ''artists'' (PList [])) (PStr []) = Inr a"
          using a by (simp add: dict_get_def)
        have found_t: "dict_get ?found ''title'' (PStr []) = ?ti"
          by (simp add: dict_get_def)
        have found_l: "py_get ?found ''lyrics'' = PStr (cleaned l)"
          by (simp add: py_get_def dict_get_def)
        have found_k: "?found ''lyrics'' \<noteq> None" by simp
        have found_found: "?found(''lyrics'' \<mapsto> PStr (cleaned l),
                        ''lyrics_source'' \<mapsto> PStr ''genius'', ''genius_url'' \<mapsto> url) = ?found"
          by (rule ext) simp
        have "fetch_lyrics_single g ?found = Inr ?found"
          using fetch_lyrics_single_unfold [OF found_a, of g] Song False found_found found_k
          unfolding found_t found_l by simp
        with t' show ?thesis by simp
      qed
    qed
  qed
qed

text \<open>
  C10. \<^verbatim>\<open>fetch_lyrics_single\<close> returns a track with non-empty lyrics as it is, and
  \<^verbatim>\<open>analyze_sentiment_single\<close> returns a track whose \<^verbatim>\<open>sentiment_score\<close> is not
  \<^verbatim>\<open>None\<close> as it is. With the same answers from the lyrics search and the classifier,
  applying either enrichment to its own result gives that result again.
\<close>

theorem enrichment_skips_enriched_track:
  "(artists_is_list t \<and> truthy (py_get t ''lyrics'') \<longrightarrow> fetch_lyrics_single g t = Inr t)
   \<and> (py_get t ''sentiment_score'' \<noteq> PNone \<longrightarrow> analyze_sentiment_single p s c t = t)
   \<and> (\<forall>t'. fetch_lyrics_single g t = Inr t' \<longrightarrow> fetch_lyrics_single g t' = Inr t')
   \<and> analyze_sentiment_single p s c (analyze_sentiment_single p s c t)
       = analyze_sentiment_single p s c t"
  using fetch_lyrics_skip [of t g] analyze_sentiment_skip [of t p s c]
    fetch_lyrics_single_idem [of g t] analyze_sentiment_single_idem [of p s c t]
  by blast


theorem enrichment_skips_enriched_track_witness:
  "artists_is_list [''lyrics'' \<mapsto> PStr ''la la'', ''sentiment_score'' \<mapsto> PNum (7/10)]
   \<and> truthy (py_get [''lyrics'' \<mapsto> PStr ''la la'', ''sentiment_score'' \<mapsto> PNum (7/10)] ''lyrics'')
   \<and> py_get [''lyrics'' \<mapsto> PStr ''la la'', ''sentiment_score'' \<mapsto> PNum (7/10)]
         ''sentiment_score'' \<noteq> PNone
   \<and> fetch_lyrics_single (\<lambda>title artist. Song ''other words'' PNone)
         [''lyrics'' \<mapsto> PStr ''la la'', ''sentiment_score'' \<mapsto> PNum (7/10)]
       = Inr [''lyrics'' \<mapsto> PStr ''la la'', ''sentiment_score'' \<mapsto> PNum (7/10)]
   \<and> analyze_sentiment_single (\<lambda>x. x) (\<lambda>x. [x]) (\<lambda>x. Clf ''negative'' 1)
         [''lyrics'' \<mapsto> PStr ''la la'', ''sentiment_score'' \<mapsto> PNum (7/10)]
       = [''lyrics'' \<mapsto> PStr ''la la'', ''sentiment_score'' \<mapsto> PNum (7/10)]"
proof -
  let ?t = "[''lyrics'' \<mapsto> PStr ''la la'', ''sentiment_score'' \<mapsto> PNum (7/10)] :: track"
  have h1: "artists_is_list ?t" by (simp add: artists_is_list_def)
  have h2: "truthy (py_get ?t ''lyrics'')" by (simp add: py_get_def dict_get_def)
  have h3: "py_get ?t ''sentiment_score'' \<noteq> PNone" by (simp add: py_get_def dict_get_def)
  note T = enrichment_skips_enriched_track [of ?t "\<lambda>title artist. Song ''other words'' PNone"
      "\<lambda>x. x" "\<lambda>x. [x]" "\<lambda>x. Clf ''negative'' 1"]
  have c1: "fetch_lyrics_single (\<lambda>title artist. Song ''other words'' PNone) ?t = Inr ?t"
    using T [THEN conjunct1] h1 h2 by blast
  have c2: "analyze_sentiment_single (\<lambda>x. x) (\<lambda>x. [x]) (\<lambda>x. Clf ''negative'' 1) ?t = ?t"
    using T [THEN conjunct2, THEN conjunct1] h3 by blast
  show ?thesis
    by (intro conjI) (rule h1, rule h2, rule h3, rule c1, rule c2)
qed

section \<open>The progress stream: properties\<close>

lemma scan_track_absent_id:
  "\<not> truthy (py_get t ''track_id'') \<Longrightarrow> scan_track t b s = Inr ([], b, s)"
  by (simp add: scan_track_def)


lemma scan_track_mono:
  assumes "scan_track t b s = Inr (evs, b', s')"
  shows "b \<subseteq> b'" and "s \<subseteq> s'"
  using assms by (auto simp: scan_track_def Let_def split: if_splits)

lemma scan_track_tempo_count:
  assumes "scan_track t b s = Inr (evs, b', s')"
  shows "length (filter (is_update_for ''tempo'' tid) evs) = (if tid \<in> b' \<and> tid \<notin> b then 1 else 0)"
  using assms by (auto simp: scan_track_def Let_def split: if_splits)

lemma scan_track_sentiment_count:
  assumes "scan_track t b s = Inr (evs, b', s')"
  shows "length (filter (is_update_for ''sentiment'' tid) evs) = (if tid \<in> s' \<and> tid \<notin> s then 1 else 0)"
  using assms by (auto simp: scan_track_def Let_def split: if_splits)

lemma scan_track_events:
  assumes "scan_track t b s = Inr (evs, b', s')" and "ev \<in> set evs"
  shows "\<not> is_final ev
         \<and> (is_update_for field tid ev \<longrightarrow> truthy tid \<and> (field = ''tempo'' \<or> field = ''sentiment''))"
  using assms by (auto simp: scan_track_def Let_def split: if_splits)

text \<open>The loop over the tracks, one step: either the track raises or the rest is scanned.\<close>

lemma scan_tracks_Cons_cases:
  assumes "scan_tracks (t # ts) b s = (evs, b', s', raised)"
  obtains (raises) e where "scan_track t b s = Inl e" "evs = []" "b' = b" "s' = s" "raised = Some e"
  | (goes_on) e1 b1 s1 e2 where "scan_track t b s = Inr (e1, b1, s1)"
      "scan_tracks ts b1 s1 = (e2, b', s', raised)" "evs = e1 @ e2"
proof (cases "scan_track t b s")
  case (Inl e)
  with assms show ?thesis by (intro raises [of e]) simp_all
next
  case (Inr p)
  obtain e1 b1 s1 where p: "p = (e1, b1, s1)" by (cases p)
  obtain e2 b2 s2 r2 where r: "scan_tracks ts b1 s1 = (e2, b2, s2, r2)"
    by (cases "scan_tracks ts b1 s1") auto
  from assms Inr p r show ?thesis by (intro goes_on [of e1 b1 s1 e2]) simp_all
qed

lemma scan_tracks_mono:
  assumes "scan_tracks ts b s = (evs, b', s', raised)"
  shows "b \<subseteq> b' \<and> s \<subseteq> s'"
  using assms
proof (induction ts arbitrary: b s evs)
  case Nil
  then show ?case by simp
next
  case (Cons t ts)
  from Cons.prems show ?case
  proof (cases rule: scan_tracks_Cons_cases)
    case (raises e)
    then show ?thesis by simp
  next
    case (goes_on e1 b1 s1 e2)
    with Cons.IH [OF goes_on(2)] scan_track_mono [OF goes_on(1)] show ?thesis by blast
  qed
qed

lemma scan_tracks_tempo_count:
  assumes "scan_tracks ts b s = (evs, b', s', raised)"
  shows "length (filter (is_update_for ''tempo'' tid) evs) = (if tid \<in> b' \<and> tid \<notin> b then 1 else 0)"
  using assms
proof (induction ts arbitrary: b s evs)
  case Nil
  then show ?case by auto
next
  case (Cons t ts)
  from Cons.prems show ?case
  proof (cases rule: scan_tracks_Cons_cases)
    case (raises e)
    then show ?thesis by simp
  next
    case (goes_on e1 b1 s1 e2)
    have m1: "b \<subseteq> b1" using scan_track_mono [OF goes_on(1)] by simp
    have m2: "b1 \<subseteq> b'" using scan_tracks_mono [OF goes_on(2)] by simp
    show ?thesis
      unfolding goes_on(3) filter_append length_append
        scan_track_tempo_count [OF goes_on(1)] Cons.IH [OF goes_on(2)]
      using m1 m2 by auto
  qed
qed

lemma scan_tracks_sentiment_count:
  assumes "scan_tracks ts b s = (evs, b', s', raised)"
  shows "length (filter (is_update_for ''sentiment'' tid) evs) = (if tid \<in> s' \<and> tid \<notin> s then 1 else 0)"
  using assms
proof (induction ts arbitrary: b s evs)
  case Nil
  then show ?case by auto
next
  case (Cons t ts)
  from Cons.prems show ?case
  proof (cases rule: scan_tracks_Cons_cases)
    case (raises e)
    then show ?thesis by simp
  next
    case (goes_on e1 b1 s1 e2)
    have m1: "s \<subseteq> s1" using scan_track_mono [OF goes_on(1)] by simp
    have m2: "s1 \<subseteq> s'" using scan_tracks_mono [OF goes_on(2)] by simp
    show ?thesis
      unfolding goes_on(3) filter_append length_append
        scan_track_sentiment_count [OF goes_on(1)] Cons.IH [OF goes_on(2)]
      using m1 m2 by auto
  qed
qed

lemma scan_tracks_events:
  assumes "scan_tracks ts b s = (evs, b', s', raised)" and "ev \<in> set evs"
  shows "\<not> is_final ev
         \<and> (is_update_for field tid ev \<longrightarrow> truthy tid \<and> (field = ''tempo'' \<or> field = ''sentiment''))"
  using assms
proof (induction ts arbitrary: b s evs)
  case Nil
  then show ?case by simp
next
  case (Cons t ts)
  from Cons.prems(1) show ?case
  proof (cases rule: scan_tracks_Cons_cases)
    case (raises e)
    with Cons.prems(2) show ?thesis by simp
  next
    case (goes_on e1 b1 s1 e2)
    with Cons.prems(2) have "ev \<in> set e1 \<or> ev \<in> set e2" by simp
    then show ?thesis
      using scan_track_events [OF goes_on(1)] Cons.IH [OF goes_on(2)] by blast
  qed
qed


text \<open>What one pass yields, in terms of the scan of the job's tracks.\<close>

lemma poll_unknown:
  "store job_id = None \<Longrightarrow> poll job_id g store = ([Error_Event ''Job not found''], g, Returned)"
  by (simp add: poll_def)

lemma poll_raised:
  assumes "store job_id = Some j"
    and "scan_tracks (job_tracks j) (last_bpm_updates g) (last_sentiment_updates g)
           = (updates, b', s', Some e)"
  shows "poll job_id g store
           = (updates, g\<lparr>last_bpm_updates := b', last_sentiment_updates := s'\<rparr>, Raised e)"
  using assms by (simp add: poll_def Let_def)

lemma poll_known:
  assumes "store job_id = Some j"
    and "scan_tracks (job_tracks j) (last_bpm_updates g) (last_sentiment_updates g)
           = (updates, b', s', None)"
  shows "\<exists>prog g2.
           poll job_id g store =
             (if job_stage j \<in> set [''complete'', ''error'']
              then (updates @ prog @ [complete_data j], g2, Returned)
              else (updates @ prog, g2, Polling))
           \<and> last_bpm_updates g2 = b' \<and> last_sentiment_updates g2 = s'
           \<and> (\<forall>ev\<in>set prog. \<not> is_final ev \<and> (\<forall>field tid. \<not> is_update_for field tid ev))"
  using assms
  by (auto simp: poll_def Let_def split: prod.splits)


lemma no_update_complete_data: "\<not> is_update_for field tid (complete_data j)"
  by (simp add: complete_data_def)

lemma poll_counts:
  assumes "poll job_id g store = (evs, g', out)"
  shows "last_bpm_updates g \<subseteq> last_bpm_updates g'
       \<and> last_sentiment_updates g \<subseteq> last_sentiment_updates g'
       \<and> length (filter (is_update_for ''tempo'' tid) evs)
           = (if tid \<in> last_bpm_updates g' \<and> tid \<notin> last_bpm_updates g then 1 else 0)
       \<and> length (filter (is_update_for ''sentiment'' tid) evs)
           = (if tid \<in> last_sentiment_updates g' \<and> tid \<notin> last_sentiment_updates g then 1 else 0)
       \<and> (\<forall>ev\<in>set evs. is_update_for field tid ev \<longrightarrow>
             truthy tid \<and> (field = ''tempo'' \<or> field = ''sentiment''))"
proof (cases "store job_id")
  case None
  with assms show ?thesis by (auto simp: poll_unknown)
next
  case (Some j)
  obtain updates b' s' raised where
    sc: "scan_tracks (job_tracks j) (last_bpm_updates g) (last_sentiment_updates g)
           = (updates, b', s', raised)"
    by (cases "scan_tracks (job_tracks j) (last_bpm_updates g) (last_sentiment_updates g)") auto
  have "\<exists>prog fin. evs = updates @ prog @ fin
          \<and> (\<forall>ev\<in>set fin. \<forall>field tid. \<not> is_update_for field tid ev)
          \<and> last_bpm_updates g' = b' \<and> last_sentiment_updates g' = s'
          \<and> (\<forall>ev\<in>set prog. \<not> is_final ev \<and> (\<forall>field tid. \<not> is_update_for field tid ev))"
  proof (cases raised)
    case (Some e)
    with poll_raised [where store = store and job_id = job_id, OF \<open>store job_id = Some j\<close>] sc assms
    have "evs = updates @ [] @ []" "last_bpm_updates g' = b'" "last_sentiment_updates g' = s'"
      by auto
    then show ?thesis by (intro exI [of _ "[]"]) simp
  next
    case None
    with sc have sc': "scan_tracks (job_tracks j) (last_bpm_updates g) (last_sentiment_updates g)
           = (updates, b', s', None)" by simp
    from poll_known [where store = store and job_id = job_id, OF \<open>store job_id = Some j\<close> sc']
    obtain prog g2 where
      p: "poll job_id g store =
             (if job_stage j \<in> set [''complete'', ''error'']
              then (updates @ prog @ [complete_data j], g2, Returned)
              else (updates @ prog, g2, Polling))"
      and g2: "last_bpm_updates g2 = b'" "last_sentiment_updates g2 = s'"
      and prog: "\<forall>ev\<in>set prog. \<not> is_final ev \<and> (\<forall>field tid. \<not> is_update_for field tid ev)"
      by blast
    show ?thesis
    proof (cases "job_stage j \<in> set [''complete'', ''error'']")
      case True
      with p assms have "evs = updates @ prog @ [complete_data j]" "g' = g2" by simp_all
      with g2 prog show ?thesis
        by (intro exI [of _ prog] exI [of _ "[complete_data j]"])
           (simp add: no_update_complete_data)
    next
      case False
      with p assms have "evs = updates @ prog @ []" "g' = g2" by simp_all
      with g2 prog show ?thesis
        by (intro exI [of _ prog] exI [of _ "[]"]) simp
    qed
  qed
  then obtain prog fin where
    evs: "evs = updates @ prog @ fin"
    and fin: "\<forall>ev\<in>set fin. \<forall>field tid. \<not> is_update_for field tid ev"
    and g': "last_bpm_updates g' = b'" "last_sentiment_updates g' = s'"
    and prog: "\<forall>ev\<in>set prog. \<not> is_final ev \<and> (\<forall>field tid. \<not> is_update_for field tid ev)"
    by blast
  have z: "filter (is_update_for f tid) prog = []" "filter (is_update_for f tid) fin = []" for f
    using prog fin by (simp_all add: filter_empty_conv)
  show ?thesis
    unfolding evs g' filter_append length_append z
    using scan_tracks_mono [OF sc] scan_tracks_tempo_count [OF sc, of tid]
      scan_tracks_sentiment_count [OF sc, of tid] scan_tracks_events [OF sc, of _ field tid]
      prog fin
    by auto
qed

text \<open>The generator after one pass: it stops, or it sleeps and polls the changed store.\<close>

lemma generate_stopped:
  assumes "poll job_id g store = (evs, g', out)" and "out \<noteq> Polling"
  shows "generate job_id works g store = (evs, store, out)"
  using assms by (cases works; cases out) simp_all

lemma generate_polls_again:
  assumes "poll job_id g store = (evs, g', Polling)"
  shows "generate job_id (work # works) g store
           = (evs @ fst (generate job_id works g' (work store)),
              snd (generate job_id works g' (work store)))"
  using assms by (simp split: prod.splits)

lemma generate_out_of_sleeps:
  assumes "poll job_id g store = (evs, g', out)"
  shows "generate job_id [] g store = (evs, store, out)"
  using assms by simp

lemma generate_cases:
  obtains (stopped) evs g' out where "poll job_id g store = (evs, g', out)"
      "generate job_id works g store = (evs, store, out)"
  | (slept) evs g' work rest where "poll job_id g store = (evs, g', Polling)"
      "works = work # rest"
      "generate job_id works g store
         = (evs @ fst (generate job_id rest g' (work store)),
            snd (generate job_id rest g' (work store)))"
proof -
  obtain evs g' out where p: "poll job_id g store = (evs, g', out)"
    by (cases "poll job_id g store") auto
  show ?thesis
  proof (cases "out = Polling")
    case False
    from p generate_stopped [OF p False] show ?thesis by (rule stopped)
  next
    case True
    with p have p': "poll job_id g store = (evs, g', Polling)" by simp
    show ?thesis
    proof (cases works)
      case Nil
      with p generate_out_of_sleeps [OF p] show ?thesis by (intro stopped) simp_all
    next
      case (Cons work rest)
      with slept [OF p' Cons] generate_polls_again [OF p'] show ?thesis by simp
    qed
  qed
qed

lemma generate_tempo_count:
  "length (filter (is_update_for ''tempo'' tid) (fst (generate job_id works g store)))
     \<le> (if tid \<in> last_bpm_updates g then 0 else 1)"
proof (induction works arbitrary: g store)
  case Nil
  obtain evs g' out where p: "poll job_id g store = (evs, g', out)"
    by (cases "poll job_id g store") auto
  show ?case using poll_counts [OF p, of tid] p by auto
next
  case (Cons work works)
  show ?case
  proof (cases rule: generate_cases [of job_id g store "work # works"])
    case (stopped evs g' out)
    then show ?thesis using poll_counts [OF stopped(1), of tid] by auto
  next
    case (slept evs g' work' rest)
    then have w: "work' = work" "rest = works" by simp_all
    have ih: "length (filter (is_update_for ''tempo'' tid)
                (fst (generate job_id works g' (work store))))
              \<le> (if tid \<in> last_bpm_updates g' then 0 else 1)"
      by (rule Cons.IH)
    show ?thesis
      unfolding slept(3) w using poll_counts [OF slept(1), of tid] ih
      by (auto split: if_splits)
  qed
qed

lemma generate_sentiment_count:
  "length (filter (is_update_for ''sentiment'' tid) (fst (generate job_id works g store)))
     \<le> (if tid \<in> last_sentiment_updates g then 0 else 1)"
proof (induction works arbitrary: g store)
  case Nil
  obtain evs g' out where p: "poll job_id g store = (evs, g', out)"
    by (cases "poll job_id g store") auto
  show ?case using poll_counts [OF p, of tid] p by auto
next
  case (Cons work works)
  show ?case
  proof (cases rule: generate_cases [of job_id g store "work # works"])
    case (stopped evs g' out)
    then show ?thesis using poll_counts [OF stopped(1), of tid] by auto
  next
    case (slept evs g' work' rest)
    then have w: "work' = work" "rest = works" by simp_all
    have ih: "length (filter (is_update_for ''sentiment'' tid)
                (fst (generate job_id works g' (work store))))
              \<le> (if tid \<in> last_sentiment_updates g' then 0 else 1)"
      by (rule Cons.IH)
    show ?thesis
      unfolding slept(3) w using poll_counts [OF slept(1), of tid] ih
      by (auto split: if_splits)
  qed
qed

lemma generate_update_events:
  "\<forall>ev\<in>set (fst (generate job_id works g store)).
      is_update_for field tid ev \<longrightarrow> truthy tid \<and> (field = ''tempo'' \<or> field = ''sentiment'')"
proof (induction works arbitrary: g store)
  case Nil
  obtain evs g' out where p: "poll job_id g store = (evs, g', out)"
    by (cases "poll job_id g store") auto
  show ?case using poll_counts [OF p, of tid field] p by auto
next
  case (Cons work works)
  show ?case
  proof (cases rule: generate_cases [of job_id g store "work # works"])
    case (stopped evs g' out)
    then show ?thesis using poll_counts [OF stopped(1), of tid field] by auto
  next
    case (slept evs g' work' rest)
    then have w: "work' = work" "rest = works" by simp_all
    have ih: "\<forall>ev\<in>set (fst (generate job_id works g' (work store))).
                is_update_for field tid ev \<longrightarrow>
                truthy tid \<and> (field = ''tempo'' \<or> field = ''sentiment'')"
      by (rule Cons.IH)
    show ?thesis
      unfolding slept(3) w using poll_counts [OF slept(1), of tid field] ih
      by auto
  qed
qed

text \<open>
  C4. Over the whole stream of a job, however the store changes between the polls, a
  \<^verbatim>\<open>track_update\<close> event for a given field and track id is yielded at most once. No
  such event carries a falsy track id, and a track whose \<^verbatim>\<open>track_id\<close> is absent (or
  otherwise falsy) yields no event and leaves both sets of sent ids as they were.
\<close>

theorem track_update_at_most_once:
  "length (filter (is_update_for field track_id) (fst (stream_progress job_id works store))) \<le> 1
   \<and> (\<not> truthy track_id \<longrightarrow>
        filter (is_update_for field track_id) (fst (stream_progress job_id works store)) = [])
   \<and> (\<not> truthy (py_get t ''track_id'') \<longrightarrow>
        scan_track t bpm_sent sentiment_sent = Inr ([], bpm_sent, sentiment_sent))"
proof (intro conjI)
  let ?evs = "fst (stream_progress job_id works store)"
  have ev: "\<forall>ev\<in>set ?evs. is_update_for field track_id ev \<longrightarrow>
              truthy track_id \<and> (field = ''tempo'' \<or> field = ''sentiment'')"
    unfolding stream_progress_def by (rule generate_update_events)
  show "length (filter (is_update_for field track_id) ?evs) \<le> 1"
  proof (cases "field = ''tempo'' \<or> field = ''sentiment''")
    case True
    then show ?thesis
      using generate_tempo_count [of track_id job_id works initial_gen store]
        generate_sentiment_count [of track_id job_id works initial_gen store]
      unfolding stream_progress_def by (auto split: if_splits)
  next
    case False
    with ev have "filter (is_update_for field track_id) ?evs = []"
      by (auto simp: filter_empty_conv)
    then show ?thesis by simp
  qed
  show "\<not> truthy track_id \<longrightarrow> filter (is_update_for field track_id) ?evs = []"
    using ev by (auto simp: filter_empty_conv)
  show "\<not> truthy (py_get t ''track_id'') \<longrightarrow>
          scan_track t bpm_sent sentiment_sent = Inr ([], bpm_sent, sentiment_sent)"
    by (simp add: scan_track_absent_id)
qed

theorem track_update_at_most_once_witness:
  "\<not> truthy PNone
   \<and> \<not> truthy (py_get [''title'' \<mapsto> PStr ''b'', ''tempo'' \<mapsto> PNum 98] ''track_id'')
   \<and> length (filter (is_update_for ''tempo'' (PStr ''a''))
        (fst (stream_progress ''job'' [\<lambda>r. r]
           [''job'' \<mapsto> \<lparr>job_stage = ''processing'', job_current = 0, job_total = 2,
                           job_message = None,
                           job_tracks = [[''track_id'' \<mapsto> PStr ''a'', ''tempo'' \<mapsto> PNum 120],
                                         [''title'' \<mapsto> PStr ''b'', ''tempo'' \<mapsto> PNum 98]],
                           job_playlist_name = None, job_output_file = None,
                           job_error = None\<rparr>]))) = 1
   \<and> filter (is_update_for ''tempo'' PNone)
        (fst (stream_progress ''job'' [\<lambda>r. r]
           [''job'' \<mapsto> \<lparr>job_stage = ''processing'', job_current = 0, job_total = 2,
                           job_message = None,
                           job_tracks = [[''track_id'' \<mapsto> PStr ''a'', ''tempo'' \<mapsto> PNum 120],
                                         [''title'' \<mapsto> PStr ''b'', ''tempo'' \<mapsto> PNum 98]],
                           job_playlist_name = None, job_output_file = None,
                           job_error = None\<rparr>])) = []
   \<and> scan_track [''title'' \<mapsto> PStr ''b'', ''tempo'' \<mapsto> PNum 98] {} {} = Inr ([], {}, {})"
proof -
  let ?t0 = "[''track_id'' \<mapsto> PStr ''a'', ''tempo'' \<mapsto> PNum 120] :: track"
  let ?t1 = "[''title'' \<mapsto> PStr ''b'', ''tempo'' \<mapsto> PNum 98] :: track"
  let ?store = "[''job'' \<mapsto> \<lparr>job_stage = ''processing'', job_current = 0, job_total = 2,
                           job_message = None, job_tracks = [?t0, ?t1],
                           job_playlist_name = None, job_output_file = None,
                           job_error = None\<rparr>] :: registry"
  have h1: "\<not> truthy PNone" by simp
  have h2: "\<not> truthy (py_get ?t1 ''track_id'')" by (simp add: py_get_def dict_get_def)
  have c1: "length (filter (is_update_for ''tempo'' (PStr ''a''))
              (fst (stream_progress ''job'' [\<lambda>r. r] ?store))) = 1"
    by (simp add: stream_progress_def poll_def scan_track_def initial_gen_def
          py_get_def dict_get_def Let_def)
  note T = track_update_at_most_once [of "''tempo''" PNone "''job''" "[\<lambda>r. r]" ?store ?t1 "{}" "{}"]
  have c2: "filter (is_update_for ''tempo'' PNone) (fst (stream_progress ''job'' [\<lambda>r. r] ?store)) = []"
    using T [THEN conjunct2, THEN conjunct1] h1 by blast
  have c3: "scan_track ?t1 {} {} = Inr ([], {}, {})"
    using T [THEN conjunct2, THEN conjunct2] h2 by blast
  show ?thesis
    by (intro conjI) (rule h1, rule h2, rule c1, rule c2, rule c3)
qed















text \<open>
  A track whose id is a non-empty list: the membership test raises, so the stream of a
  finished job ends with the exception and without the final event.
\<close>

lemma stream_raises_on_unhashable_id:
  "stream_progress ''job'' []
     [''job'' \<mapsto> \<lparr>job_stage = ''complete'', job_current = 1, job_total = 1,
                     job_message = None,
                     job_tracks = [[''track_id'' \<mapsto> PList [PStr ''a''], ''tempo'' \<mapsto> PNum 120]],
                     job_playlist_name = None, job_output_file = None, job_error = None\<rparr>]
   = ([],
      [''job'' \<mapsto> \<lparr>job_stage = ''complete'', job_current = 1, job_total = 1,
                      job_message = None,
                      job_tracks = [[''track_id'' \<mapsto> PList [PStr ''a''], ''tempo'' \<mapsto> PNum 120]],
                      job_playlist_name = None, job_output_file = None, job_error = None\<rparr>],
      Raised TypeError)"
  by (simp add: stream_progress_def poll_def scan_track_def initial_gen_def
        py_get_def dict_get_def Let_def)


section \<open>The parallel flow: the merge of the two branches\<close>

text \<open>
  What the merge loop computes where both branches have a result: the sentiment
  result's value for every key it has, else the tempo result's, else the track's. The
  sentiment branch passes \<^verbatim>\<open>tempo\<close> and \<^verbatim>\<open>audio_features_error\<close> through from the track
  it was given, so the tempo branch's values reach the final track only when the track
  the sentiment task was given did not carry these keys (or carried the same values).
\<close>


lemma merge_results_nth:
  assumes "i < length tracks"
  shows "merge_results tracks bpm_res sentiment_res ! i =
           (tracks ! i ++ (case bpm_res i of None \<Rightarrow> Map.empty | Some b \<Rightarrow> b))
             ++ (case sentiment_res i of None \<Rightarrow> Map.empty | Some s \<Rightarrow> s)"
  using assms by (simp add: merge_results_def Let_def split: option.splits)

lemma merge_results_both:
  assumes "i < length tracks" and "bpm_res i = Some b" and "sentiment_res i = Some s"
  shows "(merge_results tracks bpm_res sentiment_res ! i) k =
           (case s k of Some v \<Rightarrow> Some v
            | None \<Rightarrow> (case b k of Some v \<Rightarrow> Some v | None \<Rightarrow> (tracks ! i) k))"
  using assms by (simp add: merge_results_nth map_add_def split: option.splits)

lemma analyze_sentiment_single_other_key:
  assumes "k \<notin> {''sentiment_score'', ''sentiment_chunks'', ''stanza_scores''}"
  shows "analyze_sentiment_single p s c t k = t k"
proof (cases "py_get t ''sentiment_score'' = PNone")
  case False
  then show ?thesis by (simp add: analyze_sentiment_skip)
next
  case True
  note u = analyze_sentiment_single_unskipped [OF True, of p s c]
  show ?thesis
  proof (cases "analyze_sentiment p s c (dict_get t ''lyrics'' (PStr []))")
    case (Inl e)
    then show ?thesis using u assms by simp
  next
    case (Inr r)
    have "dom r = {''sentiment_score'', ''sentiment_chunks'', ''stanza_scores''}"
      by (rule analyze_sentiment_dom [OF Inr])
    then have "r k = None" using assms by blast
    then show ?thesis using u assms Inr by (simp add: map_add_def)
  qed
qed

lemma fetch_lyrics_single_other_key:
  assumes "fetch_lyrics_single g t = Inr t'"
    and "k \<notin> {''lyrics'', ''lyrics_source'', ''genius_url''}"
  shows "t' k = t k"
proof -
  from assms(1) obtain a where a: "first_or (dict_get t ''artists'' (PList [])) (PStr []) = Inr a"
    by (cases "first_or (dict_get t ''artists'' (PList [])) (PStr [])")
       (simp_all add: fetch_lyrics_single_def)
  show ?thesis
    using fetch_lyrics_single_unfold [OF a, of g] assms
    by (cases "g (dict_get t ''title'' (PStr [])) a") (auto split: if_splits)
qed

lemma process_sentiment_keeps_tempo_keys:
  assumes "process_sentiment_for_track sv i t = Inr (j, t')"
  shows "t' ''tempo'' = t ''tempo'' \<and> t' ''audio_features_error'' = t ''audio_features_error''"
proof -
  from assms obtain tl where
    l: "fetch_lyrics_single (sv_genius sv) t = Inr tl" and
    t': "t' = analyze_sentiment_single (sv_preprocess sv) (sv_split sv) (sv_classifier sv) tl"
    by (cases "fetch_lyrics_single (sv_genius sv) t")
       (simp_all add: process_sentiment_for_track_def)
  show ?thesis
    unfolding t'
    by (simp add: analyze_sentiment_single_other_key fetch_lyrics_single_other_key [OF l])
qed


text \<open>
  C1 at a track that already carries tempo keys (a track enriched before and submitted
  again). Both branches produce a result for index 0: the tempo branch finds 120 BPM
  and clears the error, the sentiment branch finds lyrics and a score. The sentiment
  branch's result is a copy of the submitted track, old \<^verbatim>\<open>tempo\<close> and
  \<^verbatim>\<open>audio_features_error\<close> included, and the merge loop updates with it last: the
  final track has the lyrics and the score, but the old \<^verbatim>\<open>tempo\<close> \<^verbatim>\<open>None\<close> and the old
  error text, not the tempo branch's values.
\<close>

theorem parallel_merge_loses_tempo:
  "\<exists>store' j b s.
     process_features_with_progress
       \<lparr>sv_finder = (\<lambda>creds title artist. None), sv_estimate = (\<lambda>url. Inr 120),
        sv_credentials = None, sv_genius = (\<lambda>title artist. Song ''la la la'' PNone),
        sv_preprocess = (\<lambda>x. x), sv_split = (\<lambda>x. [x]),
        sv_classifier = (\<lambda>x. Clf ''positive'' (4/5))\<rparr>
       ''playlists/p.json''
       [Submit_Bpm, Submit_Sentiment, Complete_Bpm 0, Complete_Sentiment 0]
       [[''track_id'' \<mapsto> PStr ''t3'', ''title'' \<mapsto> PStr ''Song'',
         ''artists'' \<mapsto> PList [PStr ''A''], ''preview_url'' \<mapsto> PStr ''u'',
         ''tempo'' \<mapsto> PNone,
         ''audio_features_error'' \<mapsto> PStr ''No preview URL available'']]
       ''job'' Map.empty = Some store'
     \<and> store' ''job'' = Some j \<and> job_stage j = ''complete''
     \<and> bpm_results (run_pipelines
           \<lparr>sv_finder = (\<lambda>creds title artist. None), sv_estimate = (\<lambda>url. Inr 120),
            sv_credentials = None, sv_genius = (\<lambda>title artist. Song ''la la la'' PNone),
            sv_preprocess = (\<lambda>x. x), sv_split = (\<lambda>x. [x]),
            sv_classifier = (\<lambda>x. Clf ''positive'' (4/5))\<rparr>
           [Submit_Bpm, Submit_Sentiment, Complete_Bpm 0, Complete_Sentiment 0]
           [[''track_id'' \<mapsto> PStr ''t3'', ''title'' \<mapsto> PStr ''Song'',
             ''artists'' \<mapsto> PList [PStr ''A''], ''preview_url'' \<mapsto> PStr ''u'',
             ''tempo'' \<mapsto> PNone,
             ''audio_features_error'' \<mapsto> PStr ''No preview URL available'']]) 0 = Some b
     \<and> py_get b ''tempo'' = PNum 120 \<and> py_get b ''audio_features_error'' = PNone
     \<and> sentiment_results (run_pipelines
           \<lparr>sv_finder = (\<lambda>creds title artist. None), sv_estimate = (\<lambda>url. Inr 120),
            sv_credentials = None, sv_genius = (\<lambda>title artist. Song ''la la la'' PNone),
            sv_preprocess = (\<lambda>x. x), sv_split = (\<lambda>x. [x]),
            sv_classifier = (\<lambda>x. Clf ''positive'' (4/5))\<rparr>
           [Submit_Bpm, Submit_Sentiment, Complete_Bpm 0, Complete_Sentiment 0]
           [[''track_id'' \<mapsto> PStr ''t3'', ''title'' \<mapsto> PStr ''Song'',
             ''artists'' \<mapsto> PList [PStr ''A''], ''preview_url'' \<mapsto> PStr ''u'',
             ''tempo'' \<mapsto> PNone,
             ''audio_features_error'' \<mapsto> PStr ''No preview URL available'']]) 0 = Some s
     \<and> py_get s ''lyrics'' = PStr ''la la la'' \<and> py_get s ''sentiment_score'' = PNum (9/10)
     \<and> length (job_tracks j) = 1
     \<and> py_get (job_tracks j ! 0) ''lyrics'' = PStr ''la la la''
     \<and> py_get (job_tracks j ! 0) ''sentiment_score'' = PNum (9/10)
     \<and> py_get (job_tracks j ! 0) ''tempo'' = PNone
     \<and> py_get (job_tracks j ! 0) ''audio_features_error'' = PStr ''No preview URL available''"
proof -
  let ?sv = "\<lparr>sv_finder = (\<lambda>creds title artist. None), sv_estimate = (\<lambda>url. Inr 120),
        sv_credentials = None, sv_genius = (\<lambda>title artist. Song ''la la la'' PNone),
        sv_preprocess = (\<lambda>x. x), sv_split = (\<lambda>x. [x]),
        sv_classifier = (\<lambda>x. Clf ''positive'' (4/5))\<rparr> :: services"
  let ?sched = "[Submit_Bpm, Submit_Sentiment, Complete_Bpm 0, Complete_Sentiment 0]"
  let ?t = "[''track_id'' \<mapsto> PStr ''t3'', ''title'' \<mapsto> PStr ''Song'',
         ''artists'' \<mapsto> PList [PStr ''A''], ''preview_url'' \<mapsto> PStr ''u'',
         ''tempo'' \<mapsto> PNone,
         ''audio_features_error'' \<mapsto> PStr ''No preview URL available''] :: track"
  let ?b = "?t(''tempo'' \<mapsto> PNum 120, ''audio_features_error'' \<mapsto> PNone)"
  let ?tl = "?t(''lyrics'' \<mapsto> PStr ''la la la'', ''lyrics_source'' \<mapsto> PStr ''genius'',
                ''genius_url'' \<mapsto> PNone)"
  let ?r = "[''sentiment_score'' \<mapsto> PNum (9/10), ''sentiment_chunks'' \<mapsto> PNum 1,
             ''stanza_scores'' \<mapsto> PList [PNum (9/10)]] :: track"
  let ?s = "?tl ++ ?r"
  let ?final = "(?s ++ ?b) ++ ?s"
  have b: "analyze_track_with_index (\<lambda>creds title artist. None) (\<lambda>url. Inr 120) None 0 ?t
             = Inr (0, ?b)"
    by (simp add: analyze_track_with_index_def calculate_bpm_from_preview_url_def
          py_get_def dict_get_def)
  have emb: "\<not> contains ''Embed'' ''la la la''" by simp
  have str: "py_strip ''la la la'' = ''la la la''" by (simp add: py_strip_def is_space_def)
  have l: "fetch_lyrics_single (\<lambda>title artist. Song ''la la la'' PNone) ?t = Inr ?tl"
    by (simp add: fetch_lyrics_single_def py_get_def dict_get_def str emb)
  have v: "valence_of ''positive'' (4/5) = 9/10"
    by (simp add: valence_of_def lower_char_def)
  have a: "analyze_sentiment (\<lambda>x. x) (\<lambda>x. [x]) (\<lambda>x. Clf ''positive'' (4/5)) (PStr ''la la la'')
             = Inr ?r"
    by (simp add: analyze_sentiment_def v str)
  have s: "process_sentiment_for_track ?sv 0 ?t = Inr (0, ?s)"
    by (simp add: process_sentiment_for_track_def l analyze_sentiment_single_def
          py_get_def dict_get_def a)
  have run: "run_pipelines ?sv ?sched [?t] =
       \<lparr>shared_tracks = [?s], bpm_inputs = [?t], sentiment_inputs = [?t],
        bpm_done = {0}, sentiment_done = {0},
        bpm_results = [0 \<mapsto> ?b], sentiment_results = [0 \<mapsto> ?s],
        bpm_completed = 1, sentiment_completed = 1\<rparr>"
    unfolding run_pipelines_def
    by (simp add: b s bpm_track_callback_def sentiment_track_callback_def)
  let ?j = "\<lparr>job_stage = ''complete'', job_current = 1, job_total = 1,
             job_message = Some ''Complete'', job_tracks = [?final],
             job_playlist_name = None, job_output_file = Some ''playlists/p.json'',
             job_error = None\<rparr>"
  have p: "process_features_with_progress ?sv ''playlists/p.json'' ?sched [?t] ''job'' Map.empty
             = Some [''job'' \<mapsto> ?j]"
    unfolding process_features_with_progress_def Let_def
    by (simp add: run joined_def merge_results_def normalize_sentiment_scores_def
          present_scores_def py_get_def dict_get_def)
  show ?thesis
    apply (rule exI [of _ "[''job'' \<mapsto> ?j]"])
    apply (rule exI [of _ ?j])
    apply (rule exI [of _ ?b])
    apply (rule exI [of _ ?s])
    apply (intro conjI)
                apply (rule p)
               apply simp
              apply simp
             apply (simp add: run)
            apply (simp add: py_get_def dict_get_def)
           apply (simp add: py_get_def dict_get_def)
          apply (simp add: run)
         apply (simp add: py_get_def dict_get_def map_add_def)
        apply (simp add: py_get_def dict_get_def map_add_def)
       apply simp
      apply (simp add: py_get_def dict_get_def map_add_def)
     apply (simp add: py_get_def dict_get_def map_add_def)
    apply (simp add: py_get_def dict_get_def map_add_def)
   apply (simp add: py_get_def dict_get_def map_add_def)
    done
qed

end
